theory Spec2Isabelle
  imports Complex_Main "HOL-Library.Sublist" "HOL-Library.List_Lexorder" "HOL-Library.Char_ord"
begin

section \<open>Python values, exceptions and strings\<close>

text \<open>
  Exceptions are values. The constructors are the classes the handlers of the sources
  tell apart: \<open>cli.main\<close> has handlers for \<open>FileNotFoundError\<close>, \<open>ValueError\<close>,
  \<open>KeyboardInterrupt\<close> and \<open>Exception\<close>; \<open>KeyError\<close> and \<open>TypeError\<close> are what a
  missing dictionary key and an unsupported operation raise; \<open>OSError\<close> is a failed file
  operation; \<open>OtherException\<close> is any other subclass of \<open>Exception\<close> (the package's
  \<open>EngineError\<close>, for one), by its message. \<open>KeyboardInterrupt\<close> and \<open>SystemExit\<close> derive
  from \<open>BaseException\<close> only, so \<open>except Exception\<close> does not catch them.
\<close>

datatype exn =
    FileNotFoundError string
  | ValueError string
  | KeyError string
  | TypeError string
  | OSError string
  | OtherException string
  | KeyboardInterrupt
  | SystemExit int

fun is_Exception :: "exn \<Rightarrow> bool" where
  "is_Exception KeyboardInterrupt = False"
| "is_Exception (SystemExit n) = False"
| "is_Exception e = True"

text \<open>A decimal numeral, as \<open>str(n)\<close> gives it for a non-negative integer.\<close>

definition digit_char :: "nat \<Rightarrow> char" where
  "digit_char d = ''0123456789'' ! (d mod 10)"

fun str_nat :: "nat \<Rightarrow> string" where
  "str_nat n = (if n < 10 then [digit_char n] else str_nat (n div 10) @ [digit_char (n mod 10)])"

declare str_nat.simps [simp del]

definition str_int :: "int \<Rightarrow> string" where
  "str_int i = (if i < 0 then CHR ''-'' # str_nat (nat (- i)) else str_nat (nat i))"

text \<open>
  \<open>str(e)\<close> of an exception is its message; of a \<open>KeyError\<close> it is the \<open>repr\<close> of the key
  (written here for keys without quotes or escapes, which is all the model raises).
\<close>

fun exn_str :: "exn \<Rightarrow> string" where
  "exn_str (FileNotFoundError m) = m"
| "exn_str (ValueError m) = m"
| "exn_str (KeyError k) = [CHR 0x27] @ k @ [CHR 0x27]"
| "exn_str (TypeError m) = m"
| "exn_str (OSError m) = m"
| "exn_str (OtherException m) = m"
| "exn_str KeyboardInterrupt = []"
| "exn_str (SystemExit n) = str_int n"

text \<open>
  \<open>str.lower\<close> and \<open>str.upper\<close> on ASCII letters (bit 5 of the code distinguishes the
  cases); other characters are left alone.
\<close>

fun lower_char :: "char \<Rightarrow> char" where
  "lower_char (Char b0 b1 b2 b3 b4 b5 b6 b7) =
     (let n = (of_char (Char b0 b1 b2 b3 b4 b5 b6 b7) :: nat) in
      if 65 \<le> n \<and> n \<le> 90 then Char b0 b1 b2 b3 b4 True b6 b7
      else Char b0 b1 b2 b3 b4 b5 b6 b7)"

fun upper_char :: "char \<Rightarrow> char" where
  "upper_char (Char b0 b1 b2 b3 b4 b5 b6 b7) =
     (let n = (of_char (Char b0 b1 b2 b3 b4 b5 b6 b7) :: nat) in
      if 97 \<le> n \<and> n \<le> 122 then Char b0 b1 b2 b3 b4 False b6 b7
      else Char b0 b1 b2 b3 b4 b5 b6 b7)"

definition lower :: "string \<Rightarrow> string" where
  "lower s = map lower_char s"

definition upper :: "string \<Rightarrow> string" where
  "upper s = map upper_char s"

definition startswith :: "string \<Rightarrow> string \<Rightarrow> bool" where
  "startswith s p = prefix p s"

text \<open>\<open>s.replace(old, new)\<close> for a non-empty \<open>old\<close>: left to right, without overlaps.\<close>

function replace :: "string \<Rightarrow> string \<Rightarrow> string \<Rightarrow> string" where
  "replace old new s =
     (if old = [] \<or> s = [] then s
      else if prefix old s then new @ replace old new (drop (length old) s)
      else hd s # replace old new (tl s))"
  by pat_completeness auto
termination
  by (relation "measure (\<lambda>(old, new, s). length s)") auto

declare replace.simps [simp del]

text \<open>\<open>sep.join(xs)\<close>.\<close>

fun join :: "string \<Rightarrow> string list \<Rightarrow> string" where
  "join sep [] = []"
| "join sep [x] = x"
| "join sep (x # y # ys) = x @ sep @ join sep (y # ys)"

text \<open>
  The values the dictionaries of the sources hold: \<open>None\<close>, booleans, integers, floats
  and strings. A dictionary with string keys is a map.
\<close>

datatype pyval = PyNone | PyBool bool | PyInt int | PyFloat real | PyStr string

type_synonym pydict = "string \<rightharpoonup> pyval"

section \<open>utils/logging.py\<close>

subsection \<open>Configuration\<close>

text \<open>
  \<open>DEFAULT_CONFIG\<close> and what \<open>config.yaml\<close> may put over it, key by key. The fields carry the
  types the module uses them at.
\<close>

record log_config =
  cfg_level :: string
  cfg_log_file_path :: "string option"
  cfg_format :: string
  cfg_date_format :: string
  cfg_use_colors :: bool
  cfg_colors :: "(string \<times> string) list"

definition DEFAULT_FORMAT :: string where
  "DEFAULT_FORMAT = ''%(asctime)s | %(levelname)-8s | %(name)s | %(message)s''"

definition DEFAULT_DATE_FORMAT :: string where
  "DEFAULT_DATE_FORMAT = ''%Y-%m-%d %H:%M:%S''"

definition CONSOLE_FORMAT :: string where
  "CONSOLE_FORMAT = ''%(levelname)-8s | %(message)s''"

definition DEFAULT_CONFIG :: log_config where
  "DEFAULT_CONFIG =
     \<lparr> cfg_level = ''INFO'',
       cfg_log_file_path = None,
       cfg_format = DEFAULT_FORMAT,
       cfg_date_format = DEFAULT_DATE_FORMAT,
       cfg_use_colors = True,
       cfg_colors = [(''DEBUG'', ''cyan''), (''INFO'', ''green''), (''WARNING'', ''yellow''),
                     (''ERROR'', ''red''), (''CRITICAL'', ''red'')] \<rparr>"

text \<open>
  The \<open>logging\<close> mapping of the configuration file: a key that is absent is \<open>None\<close>. For
  \<open>log_file_path\<close> an absent key and a null value both leave the default \<open>None\<close>.
\<close>

record yaml_logging =
  y_level :: "string option"
  y_log_file_path :: "string option"
  y_format :: "string option"
  y_date_format :: "string option"
  y_use_colors :: "bool option"
  y_colors :: "(string \<times> string) list option"

text \<open>
  What \<open>getattr(logging, NAME)\<close> may return: an integer, a string or some other object
  (given by its \<open>repr\<close>).
\<close>

datatype attr = AttrInt int | AttrStr string | AttrOther string

text \<open>
  What a call of the module reads from outside: the \<open>logging\<close> mapping of the first
  configuration file found (\<open>None\<close> when there is no file, no PyYAML, a file that does not
  load or one without the key), the clock as \<open>strftime\<close> renders it, whether standard
  error takes ANSI colours, and the outcome of creating the log file's directory and
  opening the file (\<open>None\<close> when both succeed). Three more fields stand for the parts of
  the Python library that are not written out here: the attributes of the module
  \<open>logging\<close> other than its level constants and \<open>BASIC_FORMAT\<close> (private names such as
  \<open>_STYLES\<close>, which differ between versions), and \<open>str.upper\<close> and the validation of a
  format string on strings with characters outside ASCII.
\<close>

record log_env =
  config_file :: "yaml_logging option"
  now_date :: string
  now_time :: string
  supports_color :: bool
  open_log_file :: "string \<Rightarrow> exn option"
  module_attrs :: "string \<rightharpoonup> attr"
  unicode_upper :: "string \<Rightarrow> string"
  unicode_format_valid :: "string \<Rightarrow> bool"

subsection \<open>Loggers and handlers\<close>

datatype formatter =
    ColoredFormatter string string bool "(string \<times> string) list"
  | Formatter string string

datatype stream = Stderr | LogFile string

record handler =
  h_stream :: stream
  h_level :: int
  h_formatter :: formatter

record logger =
  lg_level :: int
  lg_handlers :: "handler list"
  lg_propagate :: bool
  lg_disabled :: bool

text \<open>
  \<open>logging.getLogger\<close> keeps one \<open>Logger\<close> object per name in its manager's \<open>loggerDict\<close>,
  so a logger object is identified by its key there: a reference to a logger is that key.
  The module's own globals are \<open>_loggers\<close>, \<open>_config_cache\<close> and \<open>_initialized\<close>.
\<close>

type_synonym logger_ref = string

record logging_state =
  loggerDict :: "string \<rightharpoonup> logger"
  loggers_cache :: "string \<rightharpoonup> logger_ref"
  config_cache :: "log_config option"
  initialized :: bool

definition new_logger :: logger where
  "new_logger = \<lparr> lg_level = 0, lg_handlers = [], lg_propagate = True, lg_disabled = False \<rparr>"

definition getLogger :: "string \<Rightarrow> logging_state \<Rightarrow> logger_ref \<times> logging_state" where
  "getLogger name s =
     (case loggerDict s name of
        Some lg \<Rightarrow> (name, s)
      | None \<Rightarrow> (name, s\<lparr>loggerDict := (loggerDict s)(name \<mapsto> new_logger)\<rparr>))"

text \<open>
  The logger hierarchy of \<open>logging\<close> follows the dots of the names: the ancestors of a
  logger are the loggers whose name is a prefix of its name that ends just before a dot,
  and its parent is the nearest one that exists (\<open>None\<close>: the root logger).
\<close>

definition dotted_prefixes :: "string \<Rightarrow> string list" where
  "dotted_prefixes name =
     [take i name. i \<leftarrow> rev [1..<length name], name ! i = CHR ''.'']"

definition logger_parent :: "logging_state \<Rightarrow> string \<Rightarrow> logger_ref option" where
  "logger_parent s name =
     (case filter (\<lambda>p. p \<in> dom (loggerDict s)) (dotted_prefixes name) of
        [] \<Rightarrow> None
      | p # ps \<Rightarrow> Some p)"

definition PACKAGE :: string where
  "PACKAGE = ''persian_transcriber''"

definition in_package_hierarchy :: "string \<Rightarrow> bool" where
  "in_package_hierarchy name = (name = PACKAGE \<or> PACKAGE \<in> set (dotted_prefixes name))"

subsection \<open>\<open>_load_config\<close>\<close>

definition merge_config :: "log_config \<Rightarrow> yaml_logging \<Rightarrow> log_config" where
  "merge_config c y =
     \<lparr> cfg_level = (case y_level y of Some v \<Rightarrow> v | None \<Rightarrow> cfg_level c),
       cfg_log_file_path = (case y_log_file_path y of Some v \<Rightarrow> Some v | None \<Rightarrow> cfg_log_file_path c),
       cfg_format = (case y_format y of Some v \<Rightarrow> v | None \<Rightarrow> cfg_format c),
       cfg_date_format = (case y_date_format y of Some v \<Rightarrow> v | None \<Rightarrow> cfg_date_format c),
       cfg_use_colors = (case y_use_colors y of Some v \<Rightarrow> v | None \<Rightarrow> cfg_use_colors c),
       cfg_colors = (case y_colors y of Some v \<Rightarrow> v | None \<Rightarrow> cfg_colors c) \<rparr>"

definition load_config :: "log_env \<Rightarrow> logging_state \<Rightarrow> log_config \<times> logging_state" where
  "load_config env s =
     (case config_cache s of
        Some c \<Rightarrow> (c, s)
      | None \<Rightarrow>
          (let config = (case config_file env of
                           None \<Rightarrow> DEFAULT_CONFIG
                         | Some y \<Rightarrow> merge_config DEFAULT_CONFIG y)
           in (config, s\<lparr>config_cache := Some config\<rparr>)))"

subsection \<open>\<open>setup_logging\<close>\<close>

datatype level_arg = LevelInt int | LevelStr string

definition is_ascii :: "string \<Rightarrow> bool" where
  "is_ascii s = list_all (\<lambda>c. (of_char c :: nat) < 128) s"

definition py_upper :: "log_env \<Rightarrow> string \<Rightarrow> string" where
  "py_upper env s = (if is_ascii s then upper s else unicode_upper env s)"

text \<open>The level constants of \<open>logging\<close>, which are also the level names it knows.\<close>

definition level_constant :: "string \<Rightarrow> int option" where
  "level_constant n =
     (if n = ''CRITICAL'' \<or> n = ''FATAL'' then Some 50
      else if n = ''ERROR'' then Some 40
      else if n = ''WARNING'' \<or> n = ''WARN'' then Some 30
      else if n = ''INFO'' then Some 20
      else if n = ''DEBUG'' then Some 10
      else if n = ''NOTSET'' then Some 0
      else None)"

text \<open>
  \<open>getattr(logging, n, logging.INFO)\<close>: whatever attribute of the module has the name,
  a level or not, and \<open>INFO\<close> when there is none.
\<close>

definition logging_getattr :: "log_env \<Rightarrow> string \<Rightarrow> attr" where
  "logging_getattr env n =
     (case level_constant n of
        Some l \<Rightarrow> AttrInt l
      | None \<Rightarrow>
          if n = ''BASIC_FORMAT'' then AttrStr ''%(levelname)s:%(name)s:%(message)s''
          else (case module_attrs env n of
                  Some v \<Rightarrow> v
                | None \<Rightarrow> AttrInt 20))"

definition level_of_name :: "log_env \<Rightarrow> string \<Rightarrow> attr" where
  "level_of_name env name = logging_getattr env (py_upper env name)"

definition quoted :: "string \<Rightarrow> string" where
  "quoted s = [CHR 0x27] @ s @ [CHR 0x27]"

text \<open>
  \<open>logging._checkLevel\<close>, which \<open>setLevel\<close> applies: an integer is a level, a string
  must be a level name, anything else is refused. (\<open>quoted\<close> is the \<open>repr\<close> of a string
  without quotes or backslashes.)
\<close>

definition checkLevel :: "attr \<Rightarrow> exn + int" where
  "checkLevel v =
     (case v of
        AttrInt n \<Rightarrow> Inr n
      | AttrStr s \<Rightarrow>
          (case level_constant s of
             Some l \<Rightarrow> Inr l
           | None \<Rightarrow> Inl (ValueError (''Unknown level: '' @ quoted s)))
      | AttrOther r \<Rightarrow> Inl (TypeError (''Level not an integer or a valid string: '' @ r)))"

text \<open>
  The validation \<open>logging.Formatter\<close> applies to a \<open>%\<close>-style format: the format must
  contain a match of
  \<^verbatim>\<open>%\(\w+\)[#0+ -]*(\*|\d+)?(\.(\*|\d+))?[diouxefgcrsa%]\<close>, letters in either case.
\<close>

definition word_char :: "char \<Rightarrow> bool" where
  "word_char c =
     (let n = (of_char c :: nat) in
      (48 \<le> n \<and> n \<le> 57) \<or> (65 \<le> n \<and> n \<le> 90) \<or> (97 \<le> n \<and> n \<le> 122) \<or> n = 95)"

definition digit :: "char \<Rightarrow> bool" where
  "digit c = (let n = (of_char c :: nat) in 48 \<le> n \<and> n \<le> 57)"

definition match_conversion :: "string \<Rightarrow> bool" where
  "match_conversion s =
     (let s1 = dropWhile (\<lambda>c. c \<in> set ''#0+ -'') s;
          s2 = (case s1 of
                  [] \<Rightarrow> s1
                | c # cs \<Rightarrow> if c = CHR ''*'' then cs else dropWhile digit s1);
          s3 = (case s2 of
                  c # d # cs \<Rightarrow>
                    if c = CHR ''.'' \<and> d = CHR ''*'' then cs
                    else if c = CHR ''.'' \<and> digit d then dropWhile digit cs
                    else s2
                | _ \<Rightarrow> s2)
      in case s3 of
           [] \<Rightarrow> False
         | c # cs \<Rightarrow> c \<in> set ''diouxefgcrsaDIOUXEFGCRSA%'')"

definition match_field :: "string \<Rightarrow> bool" where
  "match_field s =
     (case s of
        p # q # rest \<Rightarrow>
          p = CHR ''%'' \<and> q = CHR ''('' \<and> takeWhile word_char rest \<noteq> [] \<and>
          (case dropWhile word_char rest of
             [] \<Rightarrow> False
           | c # cs \<Rightarrow> c = CHR '')'' \<and> match_conversion cs)
      | _ \<Rightarrow> False)"

fun percent_style_valid :: "string \<Rightarrow> bool" where
  "percent_style_valid [] = False"
| "percent_style_valid (c # cs) = (match_field (c # cs) \<or> percent_style_valid cs)"

definition format_valid :: "log_env \<Rightarrow> string \<Rightarrow> bool" where
  "format_valid env fmt = (if is_ascii fmt then percent_style_valid fmt else unicode_format_valid env fmt)"

text \<open>
  The format a formatter keeps (\<open>fmt or self.default_format\<close>: the default for an empty
  one), and the exception its constructor raises for a format, if any.
\<close>

definition style_format :: "string \<Rightarrow> string" where
  "style_format fmt = (if fmt = [] then ''%(message)s'' else fmt)"

definition formatter_error :: "log_env \<Rightarrow> string \<Rightarrow> exn option" where
  "formatter_error env fmt =
     (if format_valid env (style_format fmt) then None
      else Some (ValueError (''Invalid format '' @ quoted (style_format fmt) @ '' for '' @
                             quoted ''%'' @ '' style'')))"

record setup_args =
  p_level :: "level_arg option"
  p_log_file :: "string option"
  p_log_format :: "string option"
  p_date_format :: "string option"
  p_use_colors :: "bool option"
  p_quiet :: bool
  p_verbose :: bool

definition setup_defaults :: setup_args where
  "setup_defaults =
     \<lparr> p_level = None, p_log_file = None, p_log_format = None, p_date_format = None,
       p_use_colors = None, p_quiet = False, p_verbose = False \<rparr>"

text \<open>The level as lines 251 to 257 determine it; \<open>setLevel\<close> checks it later.\<close>

definition resolve_level :: "log_env \<Rightarrow> log_config \<Rightarrow> setup_args \<Rightarrow> attr" where
  "resolve_level env config a =
     (if p_verbose a then AttrInt 10
      else case p_level a of
             Some (LevelStr l) \<Rightarrow> level_of_name env l
           | Some (LevelInt n) \<Rightarrow> AttrInt n
           | None \<Rightarrow> level_of_name env (cfg_level config))"

definition resolve_log_file :: "log_env \<Rightarrow> log_config \<Rightarrow> setup_args \<Rightarrow> string option" where
  "resolve_log_file env config a =
     (case p_log_file a of
        Some f \<Rightarrow> Some f
      | None \<Rightarrow>
          (case cfg_log_file_path config of
             None \<Rightarrow> None
           | Some p \<Rightarrow>
               if p = [] then None
               else Some (replace ''{time}'' (now_time env) (replace ''{date}'' (now_date env) p))))"

definition resolve_format :: "log_config \<Rightarrow> setup_args \<Rightarrow> string" where
  "resolve_format config a = (case p_log_format a of Some l \<Rightarrow> l | None \<Rightarrow> cfg_format config)"

definition console_handler :: "log_env \<Rightarrow> log_config \<Rightarrow> setup_args \<Rightarrow> int \<Rightarrow> handler" where
  "console_handler env config a lvl =
     \<lparr> h_stream = Stderr,
       h_level = lvl,
       h_formatter =
         ColoredFormatter (style_format CONSOLE_FORMAT)
           (case p_date_format a of Some d \<Rightarrow> d | None \<Rightarrow> cfg_date_format config)
           ((case p_use_colors a of Some u \<Rightarrow> u | None \<Rightarrow> cfg_use_colors config) \<and> supports_color env)
           (cfg_colors config) \<rparr>"

definition file_handler :: "log_config \<Rightarrow> setup_args \<Rightarrow> string \<Rightarrow> handler" where
  "file_handler config a f =
     \<lparr> h_stream = LogFile f,
       h_level = 10,
       h_formatter =
         Formatter (style_format (resolve_format config a))
           (case p_date_format a of Some d \<Rightarrow> d | None \<Rightarrow> cfg_date_format config) \<rparr>"

text \<open>An update of the logger object a reference points to.\<close>

definition update_logger :: "logger_ref \<Rightarrow> (logger \<Rightarrow> logger) \<Rightarrow> logging_state \<Rightarrow> logging_state" where
  "update_logger r f s =
     (case loggerDict s r of
        None \<Rightarrow> s
      | Some lg \<Rightarrow> s\<lparr>loggerDict := (loggerDict s)(r \<mapsto> f lg)\<rparr>)"

text \<open>
  Lines 289 to 300: unless \<open>quiet\<close>, the console handler is made, given its formatter
  (whose constructor validates \<open>CONSOLE_FORMAT\<close>) and attached. The result is the
  exception raised, if any, and the state.
\<close>

definition attach_console ::
  "log_env \<Rightarrow> log_config \<Rightarrow> setup_args \<Rightarrow> int \<Rightarrow> logger_ref \<Rightarrow> logging_state
     \<Rightarrow> exn option \<times> logging_state" where
  "attach_console env config a lvl r s =
     (if p_quiet a then (None, s)
      else case formatter_error env CONSOLE_FORMAT of
             Some e \<Rightarrow> (Some e, s)
           | None \<Rightarrow>
               (None, update_logger r
                        (\<lambda>lg. lg\<lparr>lg_handlers := lg_handlers lg @ [console_handler env config a lvl]\<rparr>) s))"

text \<open>
  Lines 303 to 319: when a log file is resolved, its directory is made and the file
  opened, then the formatter is made from the log format, then the handler is attached.
\<close>

definition attach_file ::
  "log_env \<Rightarrow> log_config \<Rightarrow> setup_args \<Rightarrow> string option \<Rightarrow> logger_ref \<Rightarrow> logging_state
     \<Rightarrow> exn option \<times> logging_state" where
  "attach_file env config a file r s =
     (case file of
        None \<Rightarrow> (None, s)
      | Some f \<Rightarrow>
          (case open_log_file env f of
             Some e \<Rightarrow> (Some e, s)
           | None \<Rightarrow>
               (case formatter_error env (resolve_format config a) of
                  Some e \<Rightarrow> (Some e, s)
                | None \<Rightarrow>
                    (None, update_logger r
                             (\<lambda>lg. lg\<lparr>lg_handlers := lg_handlers lg @ [file_handler config a f]\<rparr>) s))))"

text \<open>
  The keyword parameters of \<open>setup_logging\<close> are the fields of \<open>setup_args\<close>
  (\<open>p_level\<close> for \<open>level\<close>, and so on), \<open>setup_defaults\<close> their defaults.
  \<open>setup_logging\<close>, statement by statement. Three statements can raise: \<open>setLevel\<close> on
  a level that is no level, the opening of the log file, and the constructor of a formatter
  on a format that is not valid. The exception leaves the function there: after the
  handlers were cleared, and before \<open>propagate\<close> and \<open>_initialized\<close> are set.
\<close>

definition setup_logging ::
  "log_env \<Rightarrow> setup_args \<Rightarrow> logging_state \<Rightarrow> (exn + logger_ref) \<times> logging_state" where
  "setup_logging env a s0 =
     (let (config, s1) = load_config env s0;
          file = resolve_log_file env config a;
          (root_logger, s2) = getLogger PACKAGE s1;
          s3 = update_logger root_logger (\<lambda>lg. lg\<lparr>lg_handlers := []\<rparr>) s2
      in case checkLevel (resolve_level env config a) of
           Inl e \<Rightarrow> (Inl e, s3)
         | Inr lvl \<Rightarrow>
             (let s4 = update_logger root_logger (\<lambda>lg. lg\<lparr>lg_level := lvl\<rparr>) s3
              in case attach_console env config a lvl root_logger s4 of
                   (Some e, s5) \<Rightarrow> (Inl e, s5)
                 | (None, s5) \<Rightarrow>
                     (case attach_file env config a file root_logger s5 of
                        (Some e, s6) \<Rightarrow> (Inl e, s6)
                      | (None, s6) \<Rightarrow>
                          (Inr root_logger,
                           (update_logger root_logger (\<lambda>lg. lg\<lparr>lg_propagate := False\<rparr>) s6)
                             \<lparr>initialized := True\<rparr>))))"

subsection \<open>\<open>get_logger\<close>\<close>

definition normalize_name :: "string \<Rightarrow> string" where
  "normalize_name name = (if \<not> startswith name PACKAGE then PACKAGE @ ''.'' @ name else name)"

definition cached_logger :: "string \<Rightarrow> logging_state \<Rightarrow> logger_ref \<times> logging_state" where
  "cached_logger name s =
     (case loggers_cache s name of
        Some r \<Rightarrow> (r, s)
      | None \<Rightarrow>
          (let (r, s') = getLogger name s
           in (r, s'\<lparr>loggers_cache := (loggers_cache s')(name \<mapsto> r)\<rparr>)))"

definition get_logger ::
  "log_env \<Rightarrow> string \<Rightarrow> logging_state \<Rightarrow> (exn + logger_ref) \<times> logging_state" where
  "get_logger env name s =
     (if \<not> initialized s then
        (case setup_logging env setup_defaults s of
           (Inl e, s') \<Rightarrow> (Inl e, s')
         | (Inr rl, s') \<Rightarrow>
             (let (r, s'') = cached_logger (normalize_name name) s' in (Inr r, s'')))
      else
        (let (r, s') = cached_logger (normalize_name name) s in (Inr r, s')))"

text \<open>The state of a fresh interpreter: no logger yet, nothing cached.\<close>

definition fresh_logging :: logging_state where
  "fresh_logging =
     \<lparr> loggerDict = Map.empty, loggers_cache = Map.empty, config_cache = None,
       initialized = False \<rparr>"

definition plain_env :: log_env where
  "plain_env =
     \<lparr> config_file = None, now_date = ''2024-01-01'', now_time = ''12-00-00'',
       supports_color = False, open_log_file = (\<lambda>f. None), module_attrs = Map.empty,
       unicode_upper = (\<lambda>s. s), unicode_format_valid = (\<lambda>s. False) \<rparr>"

section \<open>cli.py\<close>

subsection \<open>Paths\<close>

text \<open>
  A \<open>Path\<close> is modelled by the string it was made from, read as a POSIX path. The file
  system answers \<open>exists\<close> and \<open>is_file\<close>: a path that exists is a regular file, a
  directory or something else.
\<close>

datatype node = File | Directory | Special

fun split_on :: "char \<Rightarrow> string \<Rightarrow> string list" where
  "split_on c [] = [[]]"
| "split_on c (x # xs) =
     (if x = c then [] # split_on c xs
      else (case split_on c xs of
              [] \<Rightarrow> [[x]]
            | y # ys \<Rightarrow> (x # y) # ys))"

text \<open>\<open>Path.name\<close>: the last component; empty components and \<open>.\<close> are not components.\<close>

definition path_name :: "string \<Rightarrow> string" where
  "path_name p =
     (case rev (filter (\<lambda>c. c \<noteq> [] \<and> c \<noteq> ''.'') (split_on CHR ''/'' p)) of
        [] \<Rightarrow> []
      | n # ns \<Rightarrow> n)"

definition rfind :: "char \<Rightarrow> string \<Rightarrow> nat option" where
  "rfind c s =
     (case filter (\<lambda>i. s ! i = c) (rev [0..<length s]) of
        [] \<Rightarrow> None
      | i # js \<Rightarrow> Some i)"

text \<open>
  \<open>Path.suffix\<close>: the name from its last dot on, when that dot is neither the first nor
  the last character of the name.
\<close>

definition path_suffix :: "string \<Rightarrow> string" where
  "path_suffix p =
     (let name = path_name p in
      case rfind CHR ''.'' name of
        None \<Rightarrow> []
      | Some i \<Rightarrow> if 0 < i \<and> i + 1 < length name then drop i name else [])"

definition exists :: "(string \<rightharpoonup> node) \<Rightarrow> string \<Rightarrow> bool" where
  "exists fs p = (fs p \<noteq> None)"

definition is_file :: "(string \<rightharpoonup> node) \<Rightarrow> string \<Rightarrow> bool" where
  "is_file fs p = (fs p = Some File)"

subsection \<open>\<open>validate_input\<close>\<close>

text \<open>
  \<open>SUPPORTED_EXTENSIONS\<close> is defined in \<open>transcriber.py\<close>; its elements are a parameter
  here.
\<close>

definition validate_input :: "(string \<rightharpoonup> node) \<Rightarrow> string list \<Rightarrow> string \<Rightarrow> exn + string" where
  "validate_input fs supported p =
     (if \<not> exists fs p then Inl (FileNotFoundError (''Input path not found: '' @ p))
      else if is_file fs p \<and> lower (path_suffix p) \<notin> set supported then
        Inl (ValueError (''Unsupported file format: '' @ path_suffix p @ [CHR 0x0A] @
                         ''Supported formats: '' @ join '', '' (sort supported)))
      else Inr p)"

definition print_progress :: "nat \<Rightarrow> nat \<Rightarrow> string \<Rightarrow> string" where
  "print_progress current total' filename =
     ''['' @ str_nat current @ ''/'' @ str_nat total' @ ''] Processing: '' @ filename"

subsection \<open>\<open>create_parser\<close> and \<open>parse_args\<close>\<close>

text \<open>The namespace \<open>parse_args\<close> returns: one field per \<open>dest\<close>.\<close>

record args =
  "input" :: "string option"
  engine :: string
  model :: string
  device :: string
  compute_type :: "string option"
  language :: string
  no_normalize :: bool
  format :: string
  "output" :: "string option"
  output_dir :: "string option"
  no_save :: bool
  timestamps :: bool
  recursive :: bool
  skip_existing :: bool
  no_skip :: bool
  api_key :: "string option"
  verbose :: bool
  quiet :: bool

text \<open>The defaults the parser declares (\<open>None\<close> where it declares none).\<close>

definition default_args :: args where
  "default_args =
     \<lparr> input = None, engine = ''faster_whisper'', model = ''medium'', device = ''auto'',
       compute_type = None, language = ''fa'', no_normalize = False, format = ''txt'',
       output = None, output_dir = None, no_save = False, timestamps = False,
       recursive = False, skip_existing = True, no_skip = False, api_key = None,
       verbose = False, quiet = False \<rparr>"

datatype dest = Engine | Model | Device | ComputeType | Language | Format | Output | OutputDir | ApiKey

datatype flag = NoNormalize | NoSave | Timestamps | Recursive | SkipExisting | NoSkip | Verbose | Quiet

datatype action = Store dest | StoreTrue flag | VersionAction | HelpAction

text \<open>The option strings of the parser (\<open>-h\<close> and \<open>--help\<close> are the ones argparse adds).\<close>

definition option_action :: "string \<Rightarrow> action option" where
  "option_action t =
     (if t = ''-h'' \<or> t = ''--help'' then Some HelpAction
      else if t = ''--version'' \<or> t = ''-V'' then Some VersionAction
      else if t = ''-e'' \<or> t = ''--engine'' then Some (Store Engine)
      else if t = ''-m'' \<or> t = ''--model'' then Some (Store Model)
      else if t = ''-d'' \<or> t = ''--device'' then Some (Store Device)
      else if t = ''--compute-type'' then Some (Store ComputeType)
      else if t = ''-l'' \<or> t = ''--language'' then Some (Store Language)
      else if t = ''--no-normalize'' then Some (StoreTrue NoNormalize)
      else if t = ''-f'' \<or> t = ''--format'' then Some (Store Format)
      else if t = ''-o'' \<or> t = ''--output'' then Some (Store Output)
      else if t = ''--output-dir'' then Some (Store OutputDir)
      else if t = ''--no-save'' then Some (StoreTrue NoSave)
      else if t = ''--timestamps'' then Some (StoreTrue Timestamps)
      else if t = ''-r'' \<or> t = ''--recursive'' then Some (StoreTrue Recursive)
      else if t = ''--skip-existing'' then Some (StoreTrue SkipExisting)
      else if t = ''--no-skip'' then Some (StoreTrue NoSkip)
      else if t = ''--api-key'' then Some (Store ApiKey)
      else if t = ''-v'' \<or> t = ''--verbose'' then Some (StoreTrue Verbose)
      else if t = ''-q'' \<or> t = ''--quiet'' then Some (StoreTrue Quiet)
      else None)"

fun store :: "dest \<Rightarrow> string \<Rightarrow> args \<Rightarrow> args" where
  "store Engine v a = a\<lparr>engine := v\<rparr>"
| "store Model v a = a\<lparr>model := v\<rparr>"
| "store Device v a = a\<lparr>device := v\<rparr>"
| "store ComputeType v a = a\<lparr>compute_type := Some v\<rparr>"
| "store Language v a = a\<lparr>language := v\<rparr>"
| "store Format v a = a\<lparr>format := v\<rparr>"
| "store Output v a = a\<lparr>output := Some v\<rparr>"
| "store OutputDir v a = a\<lparr>output_dir := Some v\<rparr>"
| "store ApiKey v a = a\<lparr>api_key := Some v\<rparr>"

fun store_true :: "flag \<Rightarrow> args \<Rightarrow> args" where
  "store_true NoNormalize a = a\<lparr>no_normalize := True\<rparr>"
| "store_true NoSave a = a\<lparr>no_save := True\<rparr>"
| "store_true Timestamps a = a\<lparr>timestamps := True\<rparr>"
| "store_true Recursive a = a\<lparr>recursive := True\<rparr>"
| "store_true SkipExisting a = a\<lparr>skip_existing := True\<rparr>"
| "store_true NoSkip a = a\<lparr>no_skip := True\<rparr>"
| "store_true Verbose a = a\<lparr>verbose := True\<rparr>"
| "store_true Quiet a = a\<lparr>quiet := True\<rparr>"

text \<open>
  What the module takes from the rest of the package and from outside. The values of the
  enumerations \<open>EngineType\<close> and \<open>OutputFormat\<close>, \<open>__version__\<close> and
  \<open>SUPPORTED_EXTENSIONS\<close> are defined in files that are not among the sources: they are
  parameters, as is the help text argparse formats. The configuration classes and the
  transcriber are outside too: a constructor returns or raises, \<open>transcribe_file\<close> returns a
  dictionary or raises, and \<open>scan_and_transcribe\<close> makes its calls of the progress callback
  (each with \<open>current\<close>, \<open>total\<close>, \<open>filename\<close>) and returns the list of per-file
  dictionaries or raises. \<open>float_str\<close> and \<open>float_2f\<close> are \<open>str(x)\<close> and
  \<open>format(x, '.2f')\<close> of a float.
\<close>

record engine_config =
  engine_type :: string
  model_size :: string
  engine_device :: string
  engine_compute_type :: "string option"

record output_config =
  output_format :: string
  directory :: "string option"
  include_timestamps :: bool

text \<open>
  \<open>normalizer_enabled\<close> is \<open>None\<close> while \<open>config.normalizer.enabled\<close> is what the
  constructor made it.
\<close>

record transcriber_config =
  config_language :: string
  config_engine :: engine_config
  config_output :: output_config
  openai_api_key :: "string option"
  config_verbose :: bool
  normalizer_enabled :: "bool option"

record cli_env =
  logging_env :: log_env
  file_system :: "string \<rightharpoonup> node"
  SUPPORTED_EXTENSIONS :: "string list"
  engine_values :: "string list"
  format_values :: "string list"
  version :: string
  help_text :: string
  new_config :: "transcriber_config \<Rightarrow> exn option"
  new_transcriber :: "transcriber_config \<Rightarrow> exn option"
  transcribe_file :: "transcriber_config \<Rightarrow> string \<Rightarrow> string option \<Rightarrow> bool \<Rightarrow> exn + pydict"
  scan_and_transcribe ::
    "transcriber_config \<Rightarrow> string \<Rightarrow> bool \<Rightarrow> bool \<Rightarrow> string option \<Rightarrow> bool
       \<Rightarrow> (nat \<times> nat \<times> string) list \<times> (exn + pydict list)"
  float_str :: "real \<Rightarrow> string"
  float_2f :: "real \<Rightarrow> string"

fun choices :: "cli_env \<Rightarrow> dest \<Rightarrow> string list option" where
  "choices env Engine = Some (engine_values env)"
| "choices env Device = Some [''auto'', ''cuda'', ''cpu'', ''mps'']"
| "choices env ComputeType = Some [''float16'', ''int8'', ''int8_float16'', ''float32'']"
| "choices env Format = Some (format_values env)"
| "choices env d = None"

definition valid_choice :: "cli_env \<Rightarrow> dest \<Rightarrow> string \<Rightarrow> bool" where
  "valid_choice env d v = (case choices env d of None \<Rightarrow> True | Some cs \<Rightarrow> v \<in> set cs)"

text \<open>
  \<open>parse_args\<close> either returns the namespace or leaves through \<open>SystemExit\<close>: with status 0
  after printing the help or the version, with status 2 after a usage error (whose text
  on standard error is not modelled).
\<close>

datatype parse_result = Parsed args | ParserExit int "string list"

text \<open>
  The model covers the command lines in which every argument that starts with \<open>-\<close> is
  one of the parser's option strings written out in full, or the lone \<open>-\<close>; values follow
  their option as the next argument. (argparse also takes unambiguous abbreviations of the
  long options, \<open>--option=value\<close>, a value or further flags glued to a short option, and
  \<open>--\<close>; a command line that needs any of these is outside the model, and \<open>parse_args\<close>
  is \<open>None\<close> for it.)

  argparse reads the arguments left to right. An option that stores a value takes the
  next argument, which must not be an option string, and checks it against its choices;
  \<open>--help\<close> and \<open>--version\<close> print and exit where they stand; the first argument that is
  not an option's is \<open>input\<close>, and any further one is reported as unrecognised once the
  whole line was read.
\<close>

definition positional_string :: "string \<Rightarrow> bool" where
  "positional_string t = (t = [] \<or> hd t \<noteq> CHR ''-'' \<or> t = ''-'')"

definition in_fragment :: "string \<Rightarrow> bool" where
  "in_fragment t = (positional_string t \<or> option_action t \<noteq> None)"

fun parse_loop :: "cli_env \<Rightarrow> string list \<Rightarrow> args \<Rightarrow> bool \<Rightarrow> parse_result" where
  "parse_loop env [] a extras = (if extras then ParserExit 2 [] else Parsed a)"
| "parse_loop env (t # ts) a extras =
     (case option_action t of
        None \<Rightarrow>
          (case input a of
             None \<Rightarrow> parse_loop env ts (a\<lparr>input := Some t\<rparr>) extras
           | Some i \<Rightarrow> parse_loop env ts a True)
      | Some HelpAction \<Rightarrow> ParserExit 0 [help_text env]
      | Some VersionAction \<Rightarrow> ParserExit 0 [''persian-transcriber '' @ version env]
      | Some (StoreTrue f) \<Rightarrow> parse_loop env ts (store_true f a) extras
      | Some (Store d) \<Rightarrow>
          (case ts of
             [] \<Rightarrow> ParserExit 2 []
           | v # ts' \<Rightarrow>
               if option_action v \<noteq> None then ParserExit 2 []
               else if \<not> valid_choice env d v then ParserExit 2 []
               else parse_loop env ts' (store d v a) extras))"

definition parse_args :: "cli_env \<Rightarrow> string list \<Rightarrow> parse_result option" where
  "parse_args env argv =
     (if list_all in_fragment argv then Some (parse_loop env argv default_args False) else None)"

subsection \<open>\<open>main\<close>\<close>

text \<open>
  What a run leaves behind: the strings printed on standard output (one per \<open>print\<close>), the
  calls of the module's logger, and the calls of the transcriber with their arguments.
\<close>

datatype log_call = LogError string | LogException string

datatype call =
    TranscribeFile transcriber_config string "string option" bool
  | ScanAndTranscribe transcriber_config string bool bool "string option" bool

record io =
  stdout :: "string list"
  logged :: "log_call list"
  calls :: "call list"

definition io0 :: io where
  "io0 = \<lparr> stdout = [], logged = [], calls = [] \<rparr>"

definition print :: "string \<Rightarrow> io \<Rightarrow> io" where
  "print s x = x\<lparr>stdout := stdout x @ [s]\<rparr>"

definition check_mark :: string where
  "check_mark = [CHR 0xE2, CHR 0x9C, CHR 0x93]"

definition cross_mark :: string where
  "cross_mark = [CHR 0xE2, CHR 0x9C, CHR 0x97]"

fun py_str :: "cli_env \<Rightarrow> pyval \<Rightarrow> string" where
  "py_str env PyNone = ''None''"
| "py_str env (PyBool b) = (if b then ''True'' else ''False'')"
| "py_str env (PyInt i) = str_int i"
| "py_str env (PyFloat x) = float_str env x"
| "py_str env (PyStr s) = s"

text \<open>\<open>format(v, '.2f')\<close>, as the f-strings of \<open>main\<close> apply it.\<close>

fun format_2f :: "cli_env \<Rightarrow> pyval \<Rightarrow> exn + string" where
  "format_2f env PyNone = Inl (TypeError ''unsupported format string passed to NoneType.__format__'')"
| "format_2f env (PyBool b) = Inr (if b then ''1.00'' else ''0.00'')"
| "format_2f env (PyInt i) = Inr (str_int i @ ''.00'')"
| "format_2f env (PyFloat x) = Inr (float_2f env x)"
| "format_2f env (PyStr s) = Inl (ValueError (''Unknown format code '' @ [CHR 0x27] @ ''f'' @ [CHR 0x27] @
                                       '' for object of type '' @ [CHR 0x27] @ ''str'' @ [CHR 0x27]))"

definition get_or :: "pydict \<Rightarrow> string \<Rightarrow> pyval \<Rightarrow> pyval" where
  "get_or d k dflt = (case d k of None \<Rightarrow> dflt | Some v \<Rightarrow> v)"

text \<open>The summary of a batch, lines 302 to 311.\<close>

definition successful_count :: "pydict list \<Rightarrow> nat" where
  "successful_count results = length (filter (\<lambda>r. ''error'' \<notin> dom r) results)"

definition failed_results :: "pydict list \<Rightarrow> pydict list" where
  "failed_results results = filter (\<lambda>r. ''error'' \<in> dom r) results"

definition failed_line :: "cli_env \<Rightarrow> pydict \<Rightarrow> string" where
  "failed_line env r =
     ''    - '' @ py_str env (get_or r ''file'' (PyStr ''Unknown'')) @ '': '' @
     py_str env (get_or r ''error'' (PyStr ''Unknown error''))"

definition summary :: "cli_env \<Rightarrow> pydict list \<Rightarrow> string list" where
  "summary env results =
     [[CHR 0x0A] @ check_mark @ '' Batch processing complete'',
      ''  Successful: '' @ str_nat (successful_count results) @ ''/'' @ str_nat (length results)] @
     (if successful_count results < length results
      then ''  Failed files:'' # map (failed_line env) (failed_results results)
      else [])"

definition build_config :: "args \<Rightarrow> transcriber_config" where
  "build_config a =
     \<lparr> config_language = language a,
       config_engine =
         \<lparr> engine_type = engine a, model_size = model a, engine_device = device a,
           engine_compute_type = compute_type a \<rparr>,
       config_output =
         \<lparr> output_format = format a,
           directory = (case output_dir a of
                          None \<Rightarrow> None
                        | Some d \<Rightarrow> if d = [] then None else Some d),
           include_timestamps = timestamps a \<rparr>,
       openai_api_key = api_key a,
       config_verbose = verbose a,
       normalizer_enabled = None \<rparr>"

text \<open>Lines 267 and 268: \<open>config.normalizer.enabled = False\<close> when \<open>--no-normalize\<close> was given.\<close>

definition disable_normalization :: "args \<Rightarrow> transcriber_config \<Rightarrow> transcriber_config" where
  "disable_normalization a config =
     (if no_normalize a then config\<lparr>normalizer_enabled := Some False\<rparr> else config)"

text \<open>The single-file branch after \<open>transcribe_file\<close> returned.\<close>

definition report_file :: "cli_env \<Rightarrow> args \<Rightarrow> pydict \<Rightarrow> io \<Rightarrow> exn option \<times> io" where
  "report_file env a result x =
     (if no_save a then
        (case result ''text'' of
           None \<Rightarrow> (Some (KeyError ''text''), x)
         | Some v \<Rightarrow> (None, print (py_str env v) x))
      else
        (let x1 = print ([CHR 0x0A] @ check_mark @ '' Transcription saved to: '' @
                         py_str env (get_or result ''output_path'' (PyStr ''N/A''))) x
         in case format_2f env (get_or result ''duration'' (PyInt 0)) of
              Inl e \<Rightarrow> (Some e, x1)
            | Inr d \<Rightarrow>
                (let x2 = print (''  Duration: '' @ d @ ''s'') x1
                 in case format_2f env (get_or result ''processing_time'' (PyInt 0)) of
                      Inl e \<Rightarrow> (Some e, x2)
                    | Inr t \<Rightarrow> (None, print (''  Processing time: '' @ t @ ''s'') x2))))"

text \<open>
  The body of the \<open>try\<close> statement: \<open>None\<close> when it runs to its end (and \<open>main\<close> returns
  0), the exception when a statement raises.
\<close>

definition main_try :: "cli_env \<Rightarrow> args \<Rightarrow> string \<Rightarrow> io \<Rightarrow> exn option \<times> io" where
  "main_try env a inp x =
     (case validate_input (file_system env) (SUPPORTED_EXTENSIONS env) inp of
        Inl e \<Rightarrow> (Some e, x)
      | Inr input_path \<Rightarrow>
          (case new_config env (build_config a) of
             Some e \<Rightarrow> (Some e, x)
           | None \<Rightarrow>
               (let config = disable_normalization a (build_config a)
                in case new_transcriber env config of
                     Some e \<Rightarrow> (Some e, x)
                   | None \<Rightarrow>
                       if is_file (file_system env) input_path then
                         (let x1 = x\<lparr>calls := calls x @
                                      [TranscribeFile config input_path (output a) (\<not> no_save a)]\<rparr>
                          in case transcribe_file env config input_path (output a) (\<not> no_save a) of
                               Inl e \<Rightarrow> (Some e, x1)
                             | Inr result \<Rightarrow> report_file env a result x1)
                       else
                         (let skip = \<not> no_skip a;
                              x1 = x\<lparr>calls := calls x @
                                     [ScanAndTranscribe config input_path (recursive a) skip
                                        (output_dir a) (\<not> quiet a)]\<rparr>;
                              (progress, outcome) =
                                scan_and_transcribe env config input_path (recursive a) skip
                                  (output_dir a) (\<not> quiet a);
                              x2 = (if quiet a then x1
                                    else x1\<lparr>stdout := stdout x1 @
                                           map (\<lambda>(c, t, f). print_progress c t f) progress\<rparr>)
                          in case outcome of
                               Inl e \<Rightarrow> (Some e, x2)
                             | Inr results \<Rightarrow>
                                 (None, x2\<lparr>stdout := stdout x2 @ summary env results\<rparr>)))))"

text \<open>The handlers of the \<open>try\<close> statement, in their order.\<close>

fun handlers :: "exn \<Rightarrow> io \<Rightarrow> (exn + int) \<times> io" where
  "handlers (FileNotFoundError m) x = (Inr 1, x\<lparr>logged := logged x @ [LogError m]\<rparr>)"
| "handlers (ValueError m) x = (Inr 1, x\<lparr>logged := logged x @ [LogError m]\<rparr>)"
| "handlers KeyboardInterrupt x = (Inr 130, print ([CHR 0x0A] @ ''Interrupted by user'') x)"
| "handlers (SystemExit n) x = (Inl (SystemExit n), x)"
| "handlers e x =
     (Inr 1, x\<lparr>logged := logged x @ [LogException (''Unexpected error: '' @ exn_str e)]\<rparr>)"

definition main_setup_logging ::
  "cli_env \<Rightarrow> args \<Rightarrow> logging_state \<Rightarrow> (exn + logger_ref) \<times> logging_state" where
  "main_setup_logging env a s =
     (if quiet a then
        setup_logging (logging_env env) (setup_defaults\<lparr>p_level := Some (LevelStr ''ERROR'')\<rparr>) s
      else if verbose a then
        setup_logging (logging_env env) (setup_defaults\<lparr>p_verbose := True\<rparr>) s
      else setup_logging (logging_env env) setup_defaults s)"

text \<open>
  \<open>main\<close> after \<open>parse_args\<close> returned the namespace. The result is the exit code \<open>main\<close>
  returns, or the exception that leaves \<open>main\<close>: one raised by \<open>setup_logging\<close>, which
  is called outside the \<open>try\<close> statement, or a \<open>SystemExit\<close>, which no handler catches.
\<close>

definition main_parsed ::
  "cli_env \<Rightarrow> args \<Rightarrow> logging_state \<Rightarrow> (exn + int) \<times> io \<times> logging_state" where
  "main_parsed env a s =
     (case main_setup_logging env a s of
        (Inl e, s') \<Rightarrow> (Inl e, io0, s')
      | (Inr rl, s') \<Rightarrow>
          (case input a of
             None \<Rightarrow> (Inr 1, print (help_text env) io0, s')
           | Some inp \<Rightarrow>
               if inp = [] then (Inr 1, print (help_text env) io0, s')
               else
                 (case main_try env a inp io0 of
                    (None, x) \<Rightarrow> (Inr 0, x, s')
                  | (Some e, x) \<Rightarrow> (fst (handlers e x), snd (handlers e x), s'))))"

definition main ::
  "cli_env \<Rightarrow> string list \<Rightarrow> logging_state \<Rightarrow> ((exn + int) \<times> io \<times> logging_state) option" where
  "main env argv s =
     (case parse_args env argv of
        None \<Rightarrow> None
      | Some (ParserExit n out) \<Rightarrow> Some (Inl (SystemExit n), io0\<lparr>stdout := out\<rparr>, s)
      | Some (Parsed a) \<Rightarrow> Some (main_parsed env a s))"

text \<open>
  The exit status of the process when \<open>main\<close> is run as the console script does,
  \<open>sys.exit(main())\<close>: the code returned, or the code of the \<open>SystemExit\<close> that left
  \<open>main\<close>. After an exception that nothing caught the interpreter ends with status 1,
  and after a \<open>KeyboardInterrupt\<close> as a shell reports an interrupted process, 130.
\<close>

fun exit_status :: "exn + int \<Rightarrow> int" where
  "exit_status (Inr n) = n"
| "exit_status (Inl (SystemExit n)) = n"
| "exit_status (Inl KeyboardInterrupt) = 130"
| "exit_status (Inl e) = 1"

section \<open>examples/batch_processing.py\<close>

text \<open>
  \<open>example_1_transcribe_directory\<close>. \<open>transcribe_file\<close> is the method of the transcriber,
  given the path of one file: it returns the result dictionary or raises. The strings are
  byte strings here, so the slice \<open>[:50]\<close> counts bytes where Python counts code points;
  it only shapes the line that is printed.
\<close>

fun type_name :: "pyval \<Rightarrow> string" where
  "type_name PyNone = ''NoneType''"
| "type_name (PyBool b) = ''bool''"
| "type_name (PyInt i) = ''int''"
| "type_name (PyFloat x) = ''float''"
| "type_name (PyStr s) = ''str''"

definition slice50 :: "pyval \<Rightarrow> exn + string" where
  "slice50 v =
     (case v of
        PyStr s \<Rightarrow> Inr (take 50 s)
      | _ \<Rightarrow> Inl (TypeError ([CHR 0x27] @ type_name v @ [CHR 0x27] @ '' object is not subscriptable'')))"

definition success_record :: "string \<Rightarrow> pyval \<Rightarrow> pyval \<Rightarrow> pydict" where
  "success_record audio_file text duration =
     [''file'' \<mapsto> PyStr (path_name audio_file), ''text'' \<mapsto> text, ''duration'' \<mapsto> duration,
      ''success'' \<mapsto> PyBool True]"

definition failure_record :: "string \<Rightarrow> exn \<Rightarrow> pydict" where
  "failure_record audio_file e =
     [''file'' \<mapsto> PyStr (path_name audio_file), ''error'' \<mapsto> PyStr (exn_str e),
      ''success'' \<mapsto> PyBool False]"

text \<open>
  The body of the \<open>try\<close> statement for one file, lines 52 to 59: the exception it raises,
  if any, with the results and the output as they are at that point.
\<close>

definition try_transcribe ::
  "(string \<Rightarrow> exn + pydict) \<Rightarrow> string \<Rightarrow> pydict list \<Rightarrow> string list
     \<Rightarrow> exn option \<times> pydict list \<times> string list" where
  "try_transcribe tf audio_file results out =
     (case tf audio_file of
        Inl e \<Rightarrow> (Some e, results, out)
      | Inr result \<Rightarrow>
          (case result ''text'' of
             None \<Rightarrow> (Some (KeyError ''text''), results, out)
           | Some text \<Rightarrow>
               (let results1 = results @
                      [success_record audio_file text (get_or result ''duration'' (PyInt 0))]
                in case slice50 text of
                     Inl e \<Rightarrow> (Some e, results1, out)
                   | Inr t \<Rightarrow> (None, results1, out @ [check_mark @ '' Success: '' @ t @ ''...'']))))"

text \<open>
  The \<open>for\<close> loop, lines 49 to 66, from the \<open>i\<close>-th file on. \<open>except Exception\<close> catches
  what \<open>is_Exception\<close> holds of; anything else leaves the loop.
\<close>

fun example_1_loop ::
  "(string \<Rightarrow> exn + pydict) \<Rightarrow> nat \<Rightarrow> nat \<Rightarrow> string list \<Rightarrow> pydict list \<Rightarrow> string list
     \<Rightarrow> (exn + pydict list) \<times> string list" where
  "example_1_loop tf n i [] results out = (Inr results, out)"
| "example_1_loop tf n i (audio_file # rest) results out =
     (case try_transcribe tf audio_file results
             (out @ [[CHR 0x0A] @ print_progress i n (path_name audio_file)]) of
        (None, results', out') \<Rightarrow> example_1_loop tf n (Suc i) rest results' out'
      | (Some e, results', out') \<Rightarrow>
          if is_Exception e then
            example_1_loop tf n (Suc i) rest
              (results' @ [failure_record audio_file e])
              (out' @ [cross_mark @ '' Failed: '' @ exn_str e])
          else (Inl e, out'))"

text \<open>
  The whole function: \<open>ctor\<close> is the outcome of constructing the transcriber,
  \<open>dir_exists\<close> whether \<open>./recordings\<close> exists, \<open>audio_files\<close> what the four \<open>glob\<close> calls
  found, in their order. It returns the list it writes to \<open>batch_results.json\<close>, or
  \<open>None\<close> when it returns before the loop.
\<close>

definition banner :: "string \<Rightarrow> string list" where
  "banner title = [[CHR 0x0A] @ replicate 60 CHR ''='', title, replicate 60 CHR ''='']"

definition example_1_transcribe_directory ::
  "exn option \<Rightarrow> (string \<Rightarrow> exn + pydict) \<Rightarrow> bool \<Rightarrow> string list
     \<Rightarrow> (exn + pydict list option) \<times> string list" where
  "example_1_transcribe_directory ctor tf dir_exists audio_files =
     (let out0 = banner ''Example 1: Transcribe Directory'' in
      case ctor of
        Some e \<Rightarrow> (Inl e, out0)
      | None \<Rightarrow>
          if \<not> dir_exists then
            (Inr None, out0 @ [''Directory not found: recordings'', ''Creating example directory...''])
          else
            (case example_1_loop tf (length audio_files) 1 audio_files []
                    (out0 @ [''Found '' @ str_nat (length audio_files) @ '' audio files'']) of
               (Inl e, out) \<Rightarrow> (Inl e, out)
             | (Inr results, out) \<Rightarrow>
                 (Inr (Some results), out @ [[CHR 0x0A] @ ''Results saved to: batch_results.json''])))"

section \<open>The configuration resolver\<close>

text \<open>
  Modelled from the spec: the configuration resolver \<open>resolve\<close> of section 4.1, which is
  not in the sources (\<open>config.py\<close> is not among them, and \<open>cli.py\<close> only hands the values
  of its options to the constructor of \<open>TranscriberConfig\<close>). A layer of settings maps
  field names to values; a layer that is not given is \<open>None\<close>. The layers are laid over the
  defaults in the order of precedence, lowest first, so that a field a higher layer leaves
  out falls through to the next lower one. The required field \<open>engine\<close> must resolve to
  one of the valid engine kinds.
\<close>

type_synonym settings = "string \<rightharpoonup> string"

datatype config_error = ConfigurationError string

definition layer :: "settings option \<Rightarrow> settings" where
  "layer l = (case l of None \<Rightarrow> Map.empty | Some m \<Rightarrow> m)"

definition resolve ::
  "string list \<Rightarrow> settings \<Rightarrow> settings option \<Rightarrow> settings option \<Rightarrow> settings option
     \<Rightarrow> config_error + settings" where
  "resolve valid_engines defaults file_config env_overrides explicit_overrides =
     (let c = defaults ++ layer file_config ++ layer env_overrides ++ layer explicit_overrides
      in case c ''engine'' of
           None \<Rightarrow> Inl (ConfigurationError ''engine'')
         | Some e \<Rightarrow> if e \<in> set valid_engines then Inr c
                      else Inl (ConfigurationError ''engine''))"

section \<open>A sample environment\<close>

text \<open>
  The scenario of the specification, used for the concrete runs below: a directory
  \<open>recordings\<close> with \<open>a.mp3\<close>, for which the engine returns the text \<open>hello\<close> and the
  duration 2.0, and \<open>b.wav\<close>, for which it raises an engine error with the message
  \<open>decode failed\<close>; beside it a file \<open>notes.txt\<close>. The values given to the package's
  constants are sample values.
\<close>

definition scenario_transcribe :: "string \<Rightarrow> exn + pydict" where
  "scenario_transcribe p =
     (if p = ''recordings/a.mp3'' then Inr [''text'' \<mapsto> PyStr ''hello'', ''duration'' \<mapsto> PyFloat 2]
      else Inl (OtherException ''decode failed''))"

definition scenario_results :: "pydict list" where
  "scenario_results =
     [[''file'' \<mapsto> PyStr ''a.mp3'', ''text'' \<mapsto> PyStr ''hello'', ''duration'' \<mapsto> PyFloat 2],
      [''file'' \<mapsto> PyStr ''b.wav'', ''error'' \<mapsto> PyStr ''decode failed'']]"

definition scenario :: cli_env where
  "scenario =
     \<lparr> logging_env = plain_env,
       file_system = [''recordings'' \<mapsto> Directory, ''recordings/a.mp3'' \<mapsto> File,
                      ''recordings/b.wav'' \<mapsto> File, ''notes.txt'' \<mapsto> File],
       SUPPORTED_EXTENSIONS = [''.wav'', ''.mp3'', ''.m4a'', ''.flac''],
       engine_values = [''faster_whisper'', ''openai_api''],
       format_values = [''txt'', ''srt'', ''json''],
       version = ''1.0.0'',
       help_text = ''usage: persian-transcriber [-h] [--version] [input]'',
       new_config = (\<lambda>c. None),
       new_transcriber = (\<lambda>c. None),
       transcribe_file = (\<lambda>c p out save. scenario_transcribe p),
       scan_and_transcribe =
         (\<lambda>c p r skip d cb. ([(1, 2, ''a.mp3''), (2, 2, ''b.wav'')], Inr scenario_results)),
       float_str = (\<lambda>x. ''2.0''),
       float_2f = (\<lambda>x. ''2.00'') \<rparr>"

text \<open>A logging environment whose configuration file names a log file and a level.\<close>

definition file_yaml :: yaml_logging where
  "file_yaml =
     \<lparr> y_level = Some ''debug'', y_log_file_path = Some ''logs/run_{date}.log'',
       y_format = None, y_date_format = None, y_use_colors = None, y_colors = None \<rparr>"

definition file_env :: log_env where
  "file_env = plain_env\<lparr>config_file := Some file_yaml\<rparr>"

section \<open>Notions used in the statements\<close>

text \<open>
  The contract of the engine that the batch loop of the example relies on: what it raises
  is a subclass of \<open>Exception\<close>, and the text of a result it returns, when there is one,
  is a string.
\<close>

definition is_str :: "pyval \<Rightarrow> bool" where
  "is_str v = (case v of PyStr s \<Rightarrow> True | _ \<Rightarrow> False)"

definition well_behaved :: "(string \<Rightarrow> exn + pydict) \<Rightarrow> string \<Rightarrow> bool" where
  "well_behaved tf f =
     (case tf f of
        Inl e \<Rightarrow> is_Exception e
      | Inr result \<Rightarrow> (case result ''text'' of None \<Rightarrow> True | Some v \<Rightarrow> is_str v))"

text \<open>
  The record expected for one file, and the lines expected on standard output, for an
  engine that keeps this contract: a failure record for a call that raised (or returned no
  text), a success record otherwise.
\<close>

definition expected_record :: "(string \<Rightarrow> exn + pydict) \<Rightarrow> string \<Rightarrow> pydict" where
  "expected_record tf f =
     (case tf f of
        Inl e \<Rightarrow> failure_record f e
      | Inr result \<Rightarrow>
          (case result ''text'' of
             None \<Rightarrow> failure_record f (KeyError ''text'')
           | Some text \<Rightarrow> success_record f text (get_or result ''duration'' (PyInt 0))))"

definition expected_lines :: "(string \<Rightarrow> exn + pydict) \<Rightarrow> nat \<Rightarrow> nat \<Rightarrow> string \<Rightarrow> string list" where
  "expected_lines tf n i f =
     [[CHR 0x0A] @ print_progress i n (path_name f),
      (case tf f of
         Inl e \<Rightarrow> cross_mark @ '' Failed: '' @ exn_str e
       | Inr result \<Rightarrow>
           (case result ''text'' of
              Some (PyStr s) \<Rightarrow> check_mark @ '' Success: '' @ take 50 s @ ''...''
            | _ \<Rightarrow> cross_mark @ '' Failed: '' @ exn_str (KeyError ''text'')))]"

fun expected_output :: "(string \<Rightarrow> exn + pydict) \<Rightarrow> nat \<Rightarrow> nat \<Rightarrow> string list \<Rightarrow> string list" where
  "expected_output tf n i [] = []"
| "expected_output tf n i (f # fs) = expected_lines tf n i f @ expected_output tf n (Suc i) fs"

text \<open>A result record holds exactly one of an error and a text.\<close>

definition exactly_one :: "pydict \<Rightarrow> bool" where
  "exactly_one r = ((''error'' \<in> dom r) = (''text'' \<notin> dom r))"


definition interrupted :: cli_env where
  "interrupted = scenario\<lparr>transcribe_file := (\<lambda>c p out save. Inl KeyboardInterrupt)\<rparr>"

section \<open>Properties of the logging module\<close>

lemma console_format_valid: "format_valid env CONSOLE_FORMAT"
proof -
  have "is_ascii CONSOLE_FORMAT \<and> percent_style_valid CONSOLE_FORMAT" by code_simp
  then show ?thesis by (simp add: format_valid_def)
qed

lemma default_format_valid: "format_valid env DEFAULT_FORMAT"
proof -
  have "is_ascii DEFAULT_FORMAT \<and> percent_style_valid DEFAULT_FORMAT" by code_simp
  then show ?thesis by (simp add: format_valid_def)
qed

lemma style_format_constants:
  "style_format CONSOLE_FORMAT = CONSOLE_FORMAT"
  "style_format DEFAULT_FORMAT = DEFAULT_FORMAT"
  by (simp_all add: style_format_def CONSOLE_FORMAT_def DEFAULT_FORMAT_def)

lemma attach_console_cache: "loggers_cache (snd (attach_console env c a l r s)) = loggers_cache s"
  by (simp add: attach_console_def update_logger_def split: option.splits)

lemma attach_file_cache: "loggers_cache (snd (attach_file env c a f r s)) = loggers_cache s"
  by (simp add: attach_file_def update_logger_def split: option.splits)

lemma getLogger_ref: "fst (getLogger n s) = n"
  by (simp add: getLogger_def split: option.splits)

lemma cached_logger_initialized: "initialized (snd (cached_logger n s)) = initialized s"
  by (simp add: cached_logger_def getLogger_def Let_def split: option.splits prod.splits)

lemma cached_logger_cached:
  "cached_logger n s = (r, s') \<Longrightarrow> loggers_cache s' n = Some r"
  by (auto simp: cached_logger_def getLogger_def Let_def split: option.splits prod.splits)

lemma cached_logger_hit:
  "loggers_cache s n = Some r \<Longrightarrow> cached_logger n s = (r, s)"
  by (simp add: cached_logger_def)

lemma cached_logger_miss:
  "loggers_cache s n = None \<Longrightarrow> fst (cached_logger n s) = n"
  by (simp add: cached_logger_def getLogger_def Let_def split: option.splits prod.splits)

lemma setup_logging_initialized:
  "setup_logging env a s = (Inr r, s') \<Longrightarrow> initialized s'"
  by (auto simp: setup_logging_def Let_def split: option.splits prod.splits sum.splits)

lemma getLogger_cache: "loggers_cache (snd (getLogger n s)) = loggers_cache s"
  by (simp add: getLogger_def split: option.splits)

lemma load_config_cache: "loggers_cache (snd (load_config env s)) = loggers_cache s"
  by (simp add: load_config_def Let_def split: option.splits)

lemma update_logger_cache: "loggers_cache (update_logger r f s) = loggers_cache s"
  by (simp add: update_logger_def split: option.splits)

lemma setup_logging_cache:
  "loggers_cache (snd (setup_logging env a s)) = loggers_cache s"
  by (simp add: setup_logging_def Let_def case_prod_beta getLogger_cache load_config_cache
        update_logger_cache attach_console_cache attach_file_cache
      split: option.splits sum.splits)

text \<open>
  Two calls of \<open>get_logger\<close> with one name return the same logger object, and the second
  call leaves the state as it is.
\<close>

lemma get_logger_same_object:
  assumes "get_logger env name s = (Inr r, s')"
  shows "get_logger env name s' = (Inr r, s')"
proof -
  obtain s1 where c: "cached_logger (normalize_name name) s1 = (r, s')" and i: "initialized s1"
  proof (cases "initialized s")
    case True
    with assms have "cached_logger (normalize_name name) s = (r, s')"
      by (auto simp: get_logger_def Let_def split: prod.splits)
    with True that show ?thesis by blast
  next
    case False
    with assms obtain rl s1 where s: "setup_logging env setup_defaults s = (Inr rl, s1)"
      and c: "cached_logger (normalize_name name) s1 = (r, s')"
      by (auto simp: get_logger_def Let_def split: prod.splits sum.splits)
    from s have "initialized s1" by (rule setup_logging_initialized)
    with c that show ?thesis by blast
  qed
  from c i have "initialized s'"
    using cached_logger_initialized [of "normalize_name name" s1] by simp
  moreover from c have "loggers_cache s' (normalize_name name) = Some r"
    by (rule cached_logger_cached)
  ultimately show ?thesis
    by (simp add: get_logger_def cached_logger_hit)
qed

text \<open>The name \<open>get_logger\<close> looks up starts with the package name.\<close>

lemma normalize_name_prefix: "startswith (normalize_name name) PACKAGE"
  by (simp add: normalize_name_def startswith_def)

text \<open>
  Where every entry of \<open>_loggers\<close> was made by \<open>get_logger\<close> (its key is the name of the
  logger it holds), the logger returned is the one of the normalized name.
\<close>

lemma get_logger_name:
  assumes "get_logger env name s = (Inr r, s')"
    and "\<And>n r'. loggers_cache s n = Some r' \<Longrightarrow> r' = n"
  shows "r = normalize_name name"
proof -
  obtain s1 where c: "cached_logger (normalize_name name) s1 = (r, s')"
    and k: "loggers_cache s1 = loggers_cache s"
  proof (cases "initialized s")
    case True
    with assms(1) have "cached_logger (normalize_name name) s = (r, s')"
      by (auto simp: get_logger_def Let_def split: prod.splits)
    with that show ?thesis by blast
  next
    case False
    with assms(1) obtain rl s1 where s: "setup_logging env setup_defaults s = (Inr rl, s1)"
      and c: "cached_logger (normalize_name name) s1 = (r, s')"
      by (auto simp: get_logger_def Let_def split: prod.splits sum.splits)
    from s have "loggers_cache s1 = loggers_cache s"
      using setup_logging_cache [of env setup_defaults s] by simp
    with c that show ?thesis by blast
  qed
  show ?thesis
  proof (cases "loggers_cache s1 (normalize_name name)")
    case None
    then show ?thesis
      using cached_logger_miss [of s1 "normalize_name name"] c by simp
  next
    case (Some r')
    with k assms(2) have "r' = normalize_name name" by simp
    with Some c show ?thesis by (simp add: cached_logger_hit)
  qed
qed

text \<open>
  Claim C9. \<open>get_logger\<close> is to return a logger of the package's hierarchy, as its
  docstring says (a child of the package logger). The test \<open>name.startswith(...)\<close> lets
  through a name that starts with the package name without a dot after it: the logger
  returned for \<open>persian_transcriber_gui\<close> carries that name, which is not in the hierarchy
  of \<open>persian_transcriber\<close>; its parent is the root logger.
\<close>

theorem get_logger_outside_hierarchy:
  "fst (get_logger plain_env ''persian_transcriber_gui'' fresh_logging) =
     Inr ''persian_transcriber_gui'' \<and>
   \<not> in_package_hierarchy ''persian_transcriber_gui'' \<and>
   logger_parent (snd (get_logger plain_env ''persian_transcriber_gui'' fresh_logging))
     ''persian_transcriber_gui'' = None"
  by code_simp

text \<open>
  A call that raises leaves \<open>propagate\<close> as it was (true for a logger just made) and
  \<open>_initialized\<close> as it was: here the level \<open>basic_format\<close>, for which \<open>getattr\<close>
  returns the string \<open>logging.BASIC_FORMAT\<close> and \<open>setLevel\<close> raises.
\<close>

theorem setup_logging_bad_level:
  "fst (setup_logging plain_env (setup_defaults\<lparr>p_level := Some (LevelStr ''basic_format'')\<rparr>)
          fresh_logging) =
     Inl (ValueError (''Unknown level: '' @ quoted ''%(levelname)s:%(name)s:%(message)s'')) \<and>
   map_option lg_propagate
     (loggerDict (snd (setup_logging plain_env
                         (setup_defaults\<lparr>p_level := Some (LevelStr ''basic_format'')\<rparr>)
                         fresh_logging)) PACKAGE) = Some True \<and>
   initialized (snd (setup_logging plain_env
                       (setup_defaults\<lparr>p_level := Some (LevelStr ''basic_format'')\<rparr>)
                       fresh_logging)) = False"
  by code_simp

text \<open>
  Claim C10, as amended. Whatever state earlier calls have left, a call of
  \<open>setup_logging\<close> whose level \<open>setLevel\<close> accepts and whose log file, if one is resolved,
  can be opened and has a valid format returns the package logger with \<open>propagate\<close> false
  and with exactly the handlers built in this call, none of the earlier ones: the console
  handler unless \<open>quiet\<close> is set, then the file handler if a log file is resolved. So a
  quiet call attaches no console handler, and a file handler is attached exactly when a
  log file is resolved.
\<close>

theorem setup_logging_handlers:
  assumes "checkLevel (resolve_level env (fst (load_config env s)) a) = Inr lvl"
    and "\<forall>f. resolve_log_file env (fst (load_config env s)) a = Some f \<longrightarrow>
                open_log_file env f = None \<and>
                format_valid env (style_format (resolve_format (fst (load_config env s)) a))"
  shows "\<exists>s' lg. setup_logging env a s = (Inr PACKAGE, s') \<and>
           loggerDict s' PACKAGE = Some lg \<and>
           lg_propagate lg = False \<and>
           lg_level lg = lvl \<and>
           lg_handlers lg =
             (if p_quiet a then [] else [console_handler env (fst (load_config env s)) a lvl]) @
             (case resolve_log_file env (fst (load_config env s)) a of
                None \<Rightarrow> []
              | Some f \<Rightarrow> [file_handler (fst (load_config env s)) a f]) \<and>
           (p_quiet a \<longrightarrow> Stderr \<notin> set (map h_stream (lg_handlers lg))) \<and>
           ((\<exists>f. LogFile f \<in> set (map h_stream (lg_handlers lg))) =
              (resolve_log_file env (fst (load_config env s)) a \<noteq> None)) \<and>
           initialized s'"
  using assms console_format_valid [of env]
  by (auto simp: setup_logging_def attach_console_def attach_file_def formatter_error_def
                 style_format_constants
                 Let_def getLogger_def update_logger_def console_handler_def file_handler_def
           split: option.splits prod.splits)

lemma replace_date:
  "replace ''{time}'' ''12-00-00'' (replace ''{date}'' ''2024-01-01'' ''logs/run_{date}.log'') =
     ''logs/run_2024-01-01.log''"
  by code_simp

lemma level_debug: "checkLevel (level_of_name plain_env ''debug'') = Inr 10"
  by code_simp

lemma level_names:
  "checkLevel (level_of_name plain_env ''INFO'') = Inr 20"
  "checkLevel (level_of_name plain_env ''ERROR'') = Inr 40"
  by code_simp+

lemma file_env_level: "level_of_name file_env l = level_of_name plain_env l"
proof -
  have "module_attrs file_env = module_attrs plain_env"
    and "unicode_upper file_env = unicode_upper plain_env"
    by (simp_all add: file_env_def)
  then show ?thesis
    unfolding level_of_name_def logging_getattr_def py_upper_def by (simp only:)
qed

lemma file_env_first_call:
  "config_cache (snd (setup_logging file_env setup_defaults fresh_logging)) =
     Some (merge_config DEFAULT_CONFIG file_yaml)"
proof -
  have cfg: "load_config file_env fresh_logging =
      (merge_config DEFAULT_CONFIG file_yaml,
       fresh_logging\<lparr>config_cache := Some (merge_config DEFAULT_CONFIG file_yaml)\<rparr>)"
    by (simp add: load_config_def file_env_def fresh_logging_def Let_def)
  have keep: "config_cache (update_logger r f s1) = config_cache s1" for r f s1
    by (simp add: update_logger_def split: option.splits)
  have "config_cache (snd (setup_logging file_env setup_defaults fresh_logging)) =
      config_cache (snd (load_config file_env fresh_logging))"
    by (simp add: setup_logging_def attach_console_def attach_file_def Let_def getLogger_def
          keep split: option.splits prod.splits sum.splits)
  with cfg show ?thesis by simp
qed

text \<open>
  A second call, quiet, after a first call that attached a console and a file handler:
  the logger ends with the file handler of the second call alone.
\<close>

theorem setup_logging_handlers_witness:
  "\<exists>s' lg. setup_logging file_env (setup_defaults\<lparr>p_quiet := True\<rparr>)
              (snd (setup_logging file_env setup_defaults fresh_logging)) = (Inr PACKAGE, s') \<and>
            loggerDict s' PACKAGE = Some lg \<and> lg_propagate lg = False \<and>
            map h_stream (lg_handlers lg) = [LogFile ''logs/run_2024-01-01.log'']"
proof -
  let ?s = "snd (setup_logging file_env setup_defaults fresh_logging)"
  let ?a = "setup_defaults\<lparr>p_quiet := True\<rparr>"
  let ?cfg = "merge_config DEFAULT_CONFIG file_yaml"
  have cfg: "fst (load_config file_env ?s) = ?cfg"
    by (simp add: load_config_def file_env_first_call)
  have "resolve_log_file file_env ?cfg ?a = Some ''logs/run_2024-01-01.log''"
    by (simp add: resolve_log_file_def merge_config_def setup_defaults_def file_env_def
          file_yaml_def plain_env_def replace_date)
  with cfg have resolved: "resolve_log_file file_env (fst (load_config file_env ?s)) ?a =
      Some ''logs/run_2024-01-01.log''"
    by simp
  have "checkLevel (resolve_level file_env ?cfg ?a) = Inr 10"
    by (simp add: resolve_level_def setup_defaults_def merge_config_def file_yaml_def
          file_env_level level_debug)
  with cfg have lvl: "checkLevel (resolve_level file_env (fst (load_config file_env ?s)) ?a) = Inr 10"
    by simp
  have "resolve_format ?cfg ?a = DEFAULT_FORMAT"
    by (simp add: resolve_format_def setup_defaults_def merge_config_def file_yaml_def
          DEFAULT_CONFIG_def)
  with cfg have opens: "\<forall>f. resolve_log_file file_env (fst (load_config file_env ?s)) ?a = Some f \<longrightarrow>
      open_log_file file_env f = None \<and>
      format_valid file_env (style_format (resolve_format (fst (load_config file_env ?s)) ?a))"
    by (simp add: default_format_valid style_format_constants) (simp add: file_env_def plain_env_def)
  from setup_logging_handlers [OF lvl opens] resolved show ?thesis
    by (auto simp: setup_defaults_def file_handler_def)
qed

text \<open>
  When \<open>setLevel\<close> refuses the level, when the log file cannot be opened, or when its
  format is not valid, the exception leaves \<open>setup_logging\<close>.
\<close>

lemma setup_logging_raises:
  "checkLevel (resolve_level env (fst (load_config env s)) a) = Inl e \<Longrightarrow>
     fst (setup_logging env a s) = Inl e"
  "checkLevel (resolve_level env (fst (load_config env s)) a) = Inr lvl \<Longrightarrow>
   resolve_log_file env (fst (load_config env s)) a = Some f \<Longrightarrow>
   open_log_file env f = Some e \<Longrightarrow>
     fst (setup_logging env a s) = Inl e"
  "checkLevel (resolve_level env (fst (load_config env s)) a) = Inr lvl \<Longrightarrow>
   resolve_log_file env (fst (load_config env s)) a = Some f \<Longrightarrow>
   open_log_file env f = None \<Longrightarrow>
   formatter_error env (resolve_format (fst (load_config env s)) a) = Some e \<Longrightarrow>
     fst (setup_logging env a s) = Inl e"
  using console_format_valid [of env]
  by (auto simp: setup_logging_def attach_console_def attach_file_def formatter_error_def
                 style_format_constants
                 Let_def getLogger_def
           split: option.splits prod.splits)

text \<open>
  A call that raises does not touch \<open>propagate\<close>: it is what it was before the call, and
  true if the call made the logger.
\<close>

lemma setup_logging_raises_propagate:
  assumes "setup_logging env a s = (Inl e, s')"
  shows "map_option lg_propagate (loggerDict s' PACKAGE) =
           Some (case loggerDict s PACKAGE of None \<Rightarrow> True | Some lg \<Rightarrow> lg_propagate lg)"
  using assms
  by (auto simp: setup_logging_def attach_console_def attach_file_def Let_def getLogger_def
                 update_logger_def load_config_def new_logger_def
           split: option.splits prod.splits sum.splits if_splits)

section \<open>Properties of the command line\<close>

lemma suffix_notes: "path_suffix ''notes.txt'' = ''.txt''"
  by (simp add: path_suffix_def path_name_def rfind_def)

lemma suffix_a_mp3: "path_suffix ''recordings/a.mp3'' = ''.mp3''"
  by (simp add: path_suffix_def path_name_def rfind_def)

text \<open>
  Claim C4. Validation of the input path: a path that does not exist fails with
  \<open>FileNotFoundError\<close> (the specification's \<open>PathNotFoundError\<close>); an existing file whose
  extension, in lower case, is not a supported one fails with \<open>ValueError\<close> and the
  message \<open>Unsupported file format\<close> (the specification's \<open>UnsupportedFormatError\<close>); an
  existing file with a supported extension is returned. \<open>main\<close> answers both failures
  with exit code 1.
\<close>

theorem validate_input_cases:
  "(fs p = None \<longrightarrow>
      validate_input fs exts p = Inl (FileNotFoundError (''Input path not found: '' @ p))) \<and>
   (fs p = Some File \<and> lower (path_suffix p) \<notin> set exts \<longrightarrow>
      validate_input fs exts p =
        Inl (ValueError (''Unsupported file format: '' @ path_suffix p @ [CHR 0x0A] @
                         ''Supported formats: '' @ join '', '' (sort exts)))) \<and>
   (fs p = Some File \<and> lower (path_suffix p) \<in> set exts \<longrightarrow>
      validate_input fs exts p = Inr p) \<and>
   fst (handlers (FileNotFoundError m) x) = Inr 1 \<and>
   fst (handlers (ValueError m) x) = Inr 1"
  by (simp add: validate_input_def exists_def is_file_def)

theorem validate_input_cases_witness:
  "validate_input (file_system scenario) (SUPPORTED_EXTENSIONS scenario) ''missing.mp3'' =
     Inl (FileNotFoundError ''Input path not found: missing.mp3'') \<and>
   validate_input (file_system scenario) (SUPPORTED_EXTENSIONS scenario) ''notes.txt'' =
     Inl (ValueError (''Unsupported file format: .txt'' @ [CHR 0x0A] @
                      ''Supported formats: .flac, .m4a, .mp3, .wav'')) \<and>
   validate_input (file_system scenario) (SUPPORTED_EXTENSIONS scenario) ''recordings/a.mp3'' =
     Inr ''recordings/a.mp3''"
proof -
  have sorted: "sort (SUPPORTED_EXTENSIONS scenario) = [''.flac'', ''.m4a'', ''.mp3'', ''.wav'']"
    unfolding scenario_def by code_simp
  have a: "file_system scenario ''missing.mp3'' = None"
    by (simp add: scenario_def)
  have b: "file_system scenario ''notes.txt'' = Some File \<and>
           lower (path_suffix ''notes.txt'') \<notin> set (SUPPORTED_EXTENSIONS scenario)"
    by (simp add: scenario_def suffix_notes lower_def)
  have c: "file_system scenario ''recordings/a.mp3'' = Some File \<and>
           lower (path_suffix ''recordings/a.mp3'') \<in> set (SUPPORTED_EXTENSIONS scenario)"
    by (simp add: scenario_def suffix_a_mp3 lower_def)
  show ?thesis
    using a b c sorted
      validate_input_cases [of "file_system scenario" "''missing.mp3''" "SUPPORTED_EXTENSIONS scenario"]
      validate_input_cases [of "file_system scenario" "''notes.txt''" "SUPPORTED_EXTENSIONS scenario"]
      validate_input_cases [of "file_system scenario" "''recordings/a.mp3''" "SUPPORTED_EXTENSIONS scenario"]
    by (simp add: suffix_notes)
qed

section \<open>Properties of the configuration resolver\<close>

lemma layer_lookup:
  "(defaults ++ layer f ++ layer e ++ layer x) k =
     (case layer x k of
        Some v \<Rightarrow> Some v
      | None \<Rightarrow>
          (case layer e k of
             Some v \<Rightarrow> Some v
           | None \<Rightarrow> (case layer f k of Some v \<Rightarrow> Some v | None \<Rightarrow> defaults k)))"
  by (simp add: map_add_def split: option.splits)

text \<open>
  Claim C6. In the resolved configuration every field has the value of the highest layer
  that sets it: the explicit overrides first, then the environment, then the file, then
  the defaults. With the default language \<open>fa\<close>, a file that sets \<open>en\<close> and an explicit
  override \<open>ar\<close>, the resolved language is \<open>ar\<close>.
\<close>

theorem resolve_precedence:
  "(resolve valid defaults f e x = Inr c \<longrightarrow>
      c k = (case layer x k of
               Some v \<Rightarrow> Some v
             | None \<Rightarrow>
                 (case layer e k of
                    Some v \<Rightarrow> Some v
                  | None \<Rightarrow> (case layer f k of Some v \<Rightarrow> Some v | None \<Rightarrow> defaults k)))) \<and>
   (defaults ''language'' = Some ''fa'' \<and> defaults ''engine'' = Some eng \<and> eng \<in> set valid \<longrightarrow>
      (\<exists>c'. resolve valid defaults (Some [''language'' \<mapsto> ''en'']) None
                (Some [''language'' \<mapsto> ''ar'']) = Inr c' \<and>
            c' ''language'' = Some ''ar''))"
proof (intro conjI impI)
  assume "resolve valid defaults f e x = Inr c"
  then have "c = defaults ++ layer f ++ layer e ++ layer x"
    by (auto simp: resolve_def Let_def split: option.splits if_splits)
  then show "c k = (case layer x k of
               Some v \<Rightarrow> Some v
             | None \<Rightarrow>
                 (case layer e k of
                    Some v \<Rightarrow> Some v
                  | None \<Rightarrow> (case layer f k of Some v \<Rightarrow> Some v | None \<Rightarrow> defaults k)))"
    by (simp only: layer_lookup)
next
  assume "defaults ''language'' = Some ''fa'' \<and> defaults ''engine'' = Some eng \<and> eng \<in> set valid"
  then show "\<exists>c'. resolve valid defaults (Some [''language'' \<mapsto> ''en'']) None
                (Some [''language'' \<mapsto> ''ar'']) = Inr c' \<and>
            c' ''language'' = Some ''ar''"
    by (simp add: resolve_def Let_def layer_def map_add_def)
qed

theorem resolve_precedence_witness:
  "\<exists>c. resolve [''faster_whisper'', ''openai_api'']
          [''language'' \<mapsto> ''fa'', ''engine'' \<mapsto> ''faster_whisper'']
          (Some [''language'' \<mapsto> ''en'']) None (Some [''language'' \<mapsto> ''ar'']) = Inr c \<and>
        c ''language'' = Some ''ar'' \<and> c ''engine'' = Some ''faster_whisper''"
proof -
  note inst = resolve_precedence [where valid = "[''faster_whisper'', ''openai_api'']"
      and defaults = "[''language'' \<mapsto> ''fa'', ''engine'' \<mapsto> ''faster_whisper'']"
      and f = "Some [''language'' \<mapsto> ''en'']" and e = None
      and x = "Some [''language'' \<mapsto> ''ar'']" and k = "''engine''"
      and eng = "''faster_whisper''"]
  from inst obtain c' where
    r: "resolve [''faster_whisper'', ''openai_api'']
          [''language'' \<mapsto> ''fa'', ''engine'' \<mapsto> ''faster_whisper'']
          (Some [''language'' \<mapsto> ''en'']) None (Some [''language'' \<mapsto> ''ar'']) = Inr c'"
    and l: "c' ''language'' = Some ''ar''"
    by auto
  from inst [where c = c'] r have "c' ''engine'' = Some ''faster_whisper''"
    by (simp add: layer_def)
  with r l show ?thesis by blast
qed

section \<open>Properties of the batch example\<close>



lemma loop_step:
  assumes "well_behaved tf f"
  shows "example_1_loop tf n i (f # fs) results out =
           example_1_loop tf n (Suc i) fs (results @ [expected_record tf f])
             (out @ expected_lines tf n i f)"
proof (cases "tf f")
  case (Inl e)
  with assms have "is_Exception e" by (simp add: well_behaved_def)
  with Inl show ?thesis
    by (simp add: try_transcribe_def expected_record_def expected_lines_def)
next
  case (Inr result)
  show ?thesis
  proof (cases "result ''text''")
    case None
    with Inr show ?thesis
      by (simp add: try_transcribe_def expected_record_def expected_lines_def)
  next
    case (Some v)
    with Inr assms obtain s where "v = PyStr s"
      by (cases v) (simp_all add: well_behaved_def is_str_def)
    with Inr Some show ?thesis
      by (simp add: try_transcribe_def expected_record_def expected_lines_def slice50_def Let_def)
  qed
qed

lemma loop_well_behaved:
  "\<forall>f\<in>set fs. well_behaved tf f \<Longrightarrow>
     example_1_loop tf n i fs results out =
       (Inr (results @ map (expected_record tf) fs), out @ expected_output tf n i fs)"
proof (induction fs arbitrary: i results out)
  case Nil
  then show ?case by simp
next
  case (Cons f fs)
  then have "well_behaved tf f" and rest: "\<forall>f\<in>set fs. well_behaved tf f" by simp_all
  then show ?case
    using Cons.IH [OF rest] by (simp add: loop_step del: example_1_loop.simps)
qed


lemma example_1_run:
  assumes "\<forall>f\<in>set files. well_behaved tf f"
  shows "\<exists>out. example_1_transcribe_directory None tf True files =
           (Inr (Some (map (expected_record tf) files)), out)"
  using loop_well_behaved [OF assms, where n = "length files" and i = 1 and results = "[]"]
  by (simp add: example_1_transcribe_directory_def Let_def)


lemma scenario_well_behaved:
  "\<forall>f\<in>set [''recordings/a.mp3'', ''recordings/b.wav'']. well_behaved scenario_transcribe f"
  by (simp add: well_behaved_def scenario_transcribe_def is_str_def)





text \<open>
  Outside the contract the loop is not one record per file: for a result whose text is not
  a string, the success record is appended before the slice for the printed line raises,
  and the handler appends a failure record as well.
\<close>

lemma text_not_a_string_two_records:
  "fst (example_1_loop (\<lambda>f. Inr [''text'' \<mapsto> PyNone]) 1 1 [''a.mp3''] [] []) =
     Inr [success_record ''a.mp3'' PyNone (PyInt 0),
          failure_record ''a.mp3'' (TypeError ([CHR 0x27] @ ''NoneType'' @ [CHR 0x27] @
                                               '' object is not subscriptable''))]"
  by (simp add: try_transcribe_def slice50_def get_or_def Let_def)

lemma exactly_one_success: "exactly_one (success_record f text duration)"
  by (simp add: exactly_one_def success_record_def)

lemma exactly_one_failure: "exactly_one (failure_record f e)"
  by (simp add: exactly_one_def failure_record_def)

lemma try_transcribe_exactly_one:
  assumes "try_transcribe tf f results out = (eo, results', out')"
    and "list_all exactly_one results"
  shows "list_all exactly_one results'"
  using assms
  by (auto simp: try_transcribe_def Let_def exactly_one_success
           split: sum.splits option.splits)

lemma loop_exactly_one:
  "example_1_loop tf n i fs results out = (Inr rs, out') \<Longrightarrow> list_all exactly_one results \<Longrightarrow>
     list_all exactly_one rs"
proof (induction fs arbitrary: i results out)
  case Nil
  then show ?case by simp
next
  case (Cons f fs)
  obtain eo results' out1 where
    t: "try_transcribe tf f results (out @ [[CHR 0x0A] @ print_progress i n (path_name f)]) =
          (eo, results', out1)"
    by (cases "try_transcribe tf f results (out @ [[CHR 0x0A] @ print_progress i n (path_name f)])")
  from t Cons.prems(2) have inv: "list_all exactly_one results'"
    by (rule try_transcribe_exactly_one)
  show ?case
  proof (cases eo)
    case None
    with t Cons.prems(1) have "example_1_loop tf n (Suc i) fs results' out1 = (Inr rs, out')"
      by simp
    from Cons.IH [OF this inv] show ?thesis .
  next
    case (Some e)
    with t Cons.prems(1) have
      "example_1_loop tf n (Suc i) fs (results' @ [failure_record f e])
         (out1 @ [cross_mark @ '' Failed: '' @ exn_str e]) = (Inr rs, out')"
      by (simp split: if_splits)
    moreover from inv have "list_all exactly_one (results' @ [failure_record f e])"
      by (simp add: exactly_one_failure)
    ultimately show ?thesis by (rule Cons.IH)
  qed
qed

lemma partition_by_error:
  "successful_count rs + length (failed_results rs) = length rs"
  unfolding successful_count_def failed_results_def
  using sum_length_filter_compl [of "\<lambda>r. ''error'' \<notin> dom r" rs] by simp

text \<open>
  Claim C8. Every record the batch of the example produces carries an \<open>error\<close> field
  exactly when it carries no \<open>text\<close>, so the partition by the \<open>error\<close> field that
  \<open>main\<close> computes for its summary counts each record once: the successes and the
  failures add up to the total, for the records of the example and for any list \<open>rs\<close>
  that \<open>scan_and_transcribe\<close> returns.
\<close>

theorem results_exactly_one:
  assumes "example_1_transcribe_directory ctor tf d files = (Inr (Some results), out)"
  shows "(\<forall>r\<in>set results. (''error'' \<in> dom r) = (''text'' \<notin> dom r)) \<and>
         successful_count results + length (failed_results results) = length results \<and>
         successful_count rs + length (failed_results rs) = length rs"
proof -
  from assms obtain out1 out2 where
    "example_1_loop tf (length files) 1 files [] out1 = (Inr results, out2)"
    by (auto simp: example_1_transcribe_directory_def Let_def
             split: option.splits if_splits prod.splits sum.splits)
  then have "list_all exactly_one results"
    by (rule loop_exactly_one) simp
  then have "\<forall>r\<in>set results. (''error'' \<in> dom r) = (''text'' \<notin> dom r)"
    by (simp add: list_all_iff exactly_one_def)
  then show ?thesis by (simp add: partition_by_error)
qed

theorem results_exactly_one_witness:
  "\<exists>results out.
     example_1_transcribe_directory None scenario_transcribe True
       [''recordings/a.mp3'', ''recordings/b.wav''] = (Inr (Some results), out) \<and>
     list_all exactly_one results \<and>
     successful_count results = 1 \<and> length (failed_results results) = 1"
proof -
  let ?files = "[''recordings/a.mp3'', ''recordings/b.wav'']"
  let ?results = "map (expected_record scenario_transcribe) ?files"
  from example_1_run [OF scenario_well_behaved] obtain out where
    run: "example_1_transcribe_directory None scenario_transcribe True ?files =
            (Inr (Some ?results), out)"
    by blast
  from results_exactly_one [OF run]
  have "\<forall>r\<in>set ?results. (''error'' \<in> dom r) = (''text'' \<notin> dom r)" by blast
  then have "list_all exactly_one ?results"
    unfolding list_all_iff exactly_one_def by blast
  moreover have "successful_count ?results = 1 \<and> length (failed_results ?results) = 1"
    by (simp add: successful_count_def failed_results_def expected_record_def
          scenario_transcribe_def success_record_def failure_record_def)
  ultimately show ?thesis using run by blast
qed

section \<open>Properties of \<open>main\<close>\<close>

lemma option_action_no_skip:
  "(option_action t = Some (StoreTrue NoSkip)) = (t = ''--no-skip'')"
  by (simp add: option_action_def)

lemma option_action_None_no_skip: "option_action t = None \<Longrightarrow> t \<noteq> ''--no-skip''"
  by (auto simp: option_action_def)

lemma no_skip_store_true: "no_skip (store_true f a) = (no_skip a \<or> f = NoSkip)"
  by (cases f) simp_all

lemma no_skip_store: "no_skip (store d v a) = no_skip a"
  by (cases d) simp_all

lemma parse_loop_no_skip:
  "parse_loop env ts a0 ex = Parsed a \<Longrightarrow> no_skip a = (no_skip a0 \<or> ''--no-skip'' \<in> set ts)"
proof (induction env ts a0 ex rule: parse_loop.induct)
  case (1 env a extras)
  then show ?case by (simp split: if_splits)
next
  case (2 env t ts a0 extras)
  show ?case
  proof (cases "option_action t")
    case None
    note t = option_action_None_no_skip [OF None]
    show ?thesis
    proof (cases "input a0")
      case inp: None
      with None "2.prems" have "parse_loop env ts (a0\<lparr>input := Some t\<rparr>) extras = Parsed a" by simp
      from "2.IH"(1) [OF None inp this] t show ?thesis by simp
    next
      case inp: (Some i)
      with None "2.prems" have "parse_loop env ts a0 True = Parsed a" by simp
      from "2.IH"(2) [OF None inp this] t show ?thesis by simp
    qed
  next
    case (Some act)
    show ?thesis
    proof (cases act)
      case (Store d)
      with Some "2.prems" obtain v ts' where ts: "ts = v # ts'" and v: "option_action v = None"
        and valid: "valid_choice env d v"
        and rest: "parse_loop env ts' (store d v a0) extras = Parsed a"
        by (auto split: list.splits if_splits)
      have "no_skip a = (no_skip (store d v a0) \<or> ''--no-skip'' \<in> set ts')"
        using "2.IH"(3) [OF Some Store ts] v valid rest by simp
      moreover from Some Store have "t \<noteq> ''--no-skip''"
        using option_action_no_skip [of t] by auto
      moreover note option_action_None_no_skip [OF v]
      ultimately show ?thesis using ts by (simp add: no_skip_store)
    next
      case (StoreTrue f)
      with Some "2.prems" have "parse_loop env ts (store_true f a0) extras = Parsed a" by simp
      from "2.IH"(4) [OF Some StoreTrue this]
      have "no_skip a = (no_skip (store_true f a0) \<or> ''--no-skip'' \<in> set ts)" .
      moreover from Some StoreTrue have "(f = NoSkip) = (t = ''--no-skip'')"
        using option_action_no_skip [of t] by auto
      ultimately show ?thesis by (auto simp: no_skip_store_true)
    next
      case VersionAction
      with Some "2.prems" show ?thesis by simp
    next
      case HelpAction
      with Some "2.prems" show ?thesis by simp
    qed
  qed
qed

lemma parse_args_no_skip:
  "parse_args env argv = Some (Parsed a) \<Longrightarrow> no_skip a = (''--no-skip'' \<in> set argv)"
  by (auto simp: parse_args_def default_args_def dest!: parse_loop_no_skip split: if_splits)


lemma setup_logging_ok:
  assumes "checkLevel (resolve_level env (fst (load_config env s)) a) = Inr lvl"
    and "resolve_log_file env (fst (load_config env s)) a = None"
  shows "\<exists>s'. setup_logging env a s = (Inr PACKAGE, s')"
  using assms console_format_valid [of env]
  by (auto simp: setup_logging_def attach_console_def attach_file_def formatter_error_def
                 style_format_constants
                 Let_def getLogger_def
           split: option.splits prod.splits)

lemma plain_env_config: "fst (load_config plain_env fresh_logging) = DEFAULT_CONFIG"
  by (simp add: load_config_def Let_def plain_env_def fresh_logging_def)

lemma plain_env_no_file:
  "p_log_file a = None \<Longrightarrow> resolve_log_file plain_env DEFAULT_CONFIG a = None"
  by (simp add: resolve_log_file_def DEFAULT_CONFIG_def)

lemma scenario_setup:
  "\<exists>s'. main_setup_logging scenario a fresh_logging = (Inr PACKAGE, s')"
proof -
  have l: "logging_env scenario = plain_env" by (simp add: scenario_def)
  have ok: "\<exists>s'. setup_logging plain_env b fresh_logging = (Inr PACKAGE, s')"
    if "p_log_file b = None"
      and "checkLevel (resolve_level plain_env DEFAULT_CONFIG b) = Inr lvl" for b lvl
    using that setup_logging_ok [of plain_env fresh_logging b lvl]
    by (simp add: plain_env_config plain_env_no_file)
  have q: "checkLevel (resolve_level plain_env DEFAULT_CONFIG
                         (setup_defaults\<lparr>p_level := Some (LevelStr ''ERROR'')\<rparr>)) = Inr 40"
    by (simp add: resolve_level_def setup_defaults_def level_names)
  have v: "checkLevel (resolve_level plain_env DEFAULT_CONFIG (setup_defaults\<lparr>p_verbose := True\<rparr>)) =
      Inr 10"
    by (simp add: resolve_level_def setup_defaults_def checkLevel_def)
  have d: "checkLevel (resolve_level plain_env DEFAULT_CONFIG setup_defaults) = Inr 20"
    by (simp add: resolve_level_def setup_defaults_def DEFAULT_CONFIG_def level_names)
  show ?thesis
    using ok [OF _ q] ok [OF _ v] ok [OF _ d]
    by (simp add: main_setup_logging_def l setup_defaults_def)
qed

lemma main_parsed_eq:
  "parse_args env argv = Some (Parsed a) \<Longrightarrow> main env argv s = Some (main_parsed env a s)"
  by (simp add: main_def)

lemma handlers_calls: "calls (snd (handlers e x)) = calls x"
  by (cases e) (simp_all add: print_def)

lemma handlers_result:
  "fst (handlers e x) =
     (case e of KeyboardInterrupt \<Rightarrow> Inr 130 | SystemExit n \<Rightarrow> Inl (SystemExit n) | _ \<Rightarrow> Inr 1)"
  by (cases e) simp_all

lemma main_parsed_without_input:
  assumes "main_setup_logging env a s = (Inr rl, s')" and "input a = None \<or> input a = Some []"
  shows "main_parsed env a s = (Inr 1, print (help_text env) io0, s')"
  using assms by (auto simp: main_parsed_def)

lemma main_parsed_with_input:
  assumes "main_setup_logging env a s = (Inr rl, s')" and "input a = Some inp" and "inp \<noteq> []"
  shows "main_parsed env a s =
           (case main_try env a inp io0 of
              (None, x) \<Rightarrow> (Inr 0, x, s')
            | (Some e, x) \<Rightarrow> (fst (handlers e x), snd (handlers e x), s'))"
  using assms by (simp add: main_parsed_def)

text \<open>
  Claim C2, as amended. When \<open>parse_args\<close> returns the namespace and the logging setup
  returns, \<open>main\<close> ends as follows: with no input it returns 1; otherwise it returns 0
  when the body of the \<open>try\<close> statement runs to its end, 130 when that body raises
  \<open>KeyboardInterrupt\<close>, and 1 when it raises \<open>FileNotFoundError\<close>, \<open>ValueError\<close> or any
  other \<open>Exception\<close>; a \<open>SystemExit\<close> raised in the body leaves \<open>main\<close>. So every code
  that \<open>main\<close> returns is 0, 1 or 130.
\<close>

theorem main_exit_codes:
  assumes "parse_args env argv = Some (Parsed a)"
    and "main_setup_logging env a s = (Inr rl, s')"
  shows "\<exists>result x. main env argv s = Some (result, x, s') \<and>
           result =
             (case input a of
                None \<Rightarrow> Inr 1
              | Some inp \<Rightarrow>
                  if inp = [] then Inr 1
                  else (case fst (main_try env a inp io0) of
                          None \<Rightarrow> Inr 0
                        | Some KeyboardInterrupt \<Rightarrow> Inr 130
                        | Some (SystemExit n) \<Rightarrow> Inl (SystemExit n)
                        | Some e \<Rightarrow> Inr 1)) \<and>
           (\<forall>c. result = Inr c \<longrightarrow> c = 0 \<or> c = 1 \<or> c = 130)"
proof (cases "input a = None \<or> input a = Some []")
  case True
  from main_parsed_without_input [OF assms(2) True] main_parsed_eq [OF assms(1)] True
  show ?thesis by auto
next
  case False
  then obtain inp where inp: "input a = Some inp" "inp \<noteq> []" by auto
  obtain eo x where t: "main_try env a inp io0 = (eo, x)" by (cases "main_try env a inp io0")
  show ?thesis
  proof (cases eo)
    case None
    with main_parsed_with_input [OF assms(2) inp] main_parsed_eq [OF assms(1)] t inp
    show ?thesis by simp
  next
    case (Some e)
    with main_parsed_with_input [OF assms(2) inp] main_parsed_eq [OF assms(1)] t inp
    show ?thesis by (cases e) (simp_all add: handlers_result)
  qed
qed

text \<open>
  The claim as stated fails: an argument that argparse rejects ends the process inside
  \<open>parse_args\<close> with status 2, here a device that is not among the choices.
\<close>

lemma parse_device_tpu:
  "parse_args scenario [''recordings/a.mp3'', ''-d'', ''tpu''] = Some (ParserExit 2 [])"
  by (simp add: parse_args_def in_fragment_def positional_string_def option_action_def
        valid_choice_def default_args_def)

theorem main_usage_error_exit_2:
  "main scenario [''recordings/a.mp3'', ''-d'', ''tpu''] fresh_logging =
     Some (Inl (SystemExit 2), io0, fresh_logging) \<and>
   exit_status (Inl (SystemExit 2)) = 2"
  by (simp add: main_def parse_device_tpu io0_def)

text \<open>
  An invocation without an input path that does not end with the help text and status 1:
  \<open>--version\<close> prints the version and leaves with status 0.
\<close>

lemma parse_version: "parse_args scenario [''--version''] = Some (ParserExit 0 [''persian-transcriber 1.0.0''])"
  by (simp add: parse_args_def in_fragment_def positional_string_def option_action_def scenario_def)

theorem main_version_exit_0:
  "main scenario [''--version''] fresh_logging =
     Some (Inl (SystemExit 0), io0\<lparr>stdout := [''persian-transcriber 1.0.0'']\<rparr>, fresh_logging)"
  by (simp add: main_def parse_version)

text \<open>
  Claim C7, as amended. When \<open>parse_args\<close> returns the namespace, the logging setup
  returns and no input path was given, \<open>main\<close> prints the help text, and nothing else,
  and returns 1.
\<close>

theorem main_without_input:
  assumes "parse_args env argv = Some (Parsed a)"
    and "main_setup_logging env a s = (Inr rl, s')"
    and "input a = None"
  shows "main env argv s = Some (Inr 1, print (help_text env) io0, s')"
  using main_parsed_without_input [OF assms(2)] main_parsed_eq [OF assms(1)] assms(3) by simp

lemma parse_verbose: "parse_args scenario [''-v''] = Some (Parsed (default_args\<lparr>verbose := True\<rparr>))"
  by (simp add: parse_args_def in_fragment_def positional_string_def option_action_def)

theorem main_without_input_witness:
  "\<exists>s'. main scenario [''-v''] fresh_logging =
          Some (Inr 1, print (help_text scenario) io0, s')"
proof -
  from scenario_setup obtain s' where
    "main_setup_logging scenario (default_args\<lparr>verbose := True\<rparr>) fresh_logging = (Inr PACKAGE, s')"
    by blast
  from main_without_input [OF parse_verbose this] show ?thesis
    by (simp add: default_args_def)
qed


lemma report_file_calls: "calls (snd (report_file env a result x)) = calls x"
  by (simp add: report_file_def print_def Let_def split: option.splits sum.splits)

lemma main_try_calls:
  assumes "main_try env a inp io0 = (eo, x)"
    and "ScanAndTranscribe config p rec skip dir cb \<in> set (calls x)"
  shows "skip = (\<not> no_skip a)"
proof -
  let ?c = "disable_normalization a (build_config a)"
  have "calls x = [] \<or>
        calls x = [TranscribeFile ?c inp (output a) (\<not> no_save a)] \<or>
        calls x = [ScanAndTranscribe ?c inp (recursive a) (\<not> no_skip a) (output_dir a) (\<not> quiet a)]"
  proof (cases "validate_input (file_system env) (SUPPORTED_EXTENSIONS env) inp")
    case (Inl e)
    with assms(1) show ?thesis by (auto simp: main_try_def io0_def)
  next
    case (Inr input_path)
    then have ip: "input_path = inp" by (simp add: validate_input_def split: if_splits)
    show ?thesis
    proof (cases "new_config env (build_config a)")
      case (Some e)
      with Inr assms(1) show ?thesis by (auto simp: main_try_def io0_def)
    next
      case None
      note nc = None
      show ?thesis
      proof (cases "new_transcriber env ?c")
        case (Some e)
        with Inr nc assms(1) show ?thesis by (auto simp: main_try_def io0_def)
      next
        case None
        show ?thesis
        proof (cases "is_file (file_system env) inp")
          case True
          let ?x1 = "io0\<lparr>calls := calls io0 @ [TranscribeFile ?c inp (output a) (\<not> no_save a)]\<rparr>"
          show ?thesis
          proof (cases "transcribe_file env ?c inp (output a) (\<not> no_save a)")
            case (Inl e)
            with Inr nc None True ip assms(1) show ?thesis
              by (auto simp: main_try_def io0_def Let_def)
          next
            case (Inr result)
            with \<open>validate_input (file_system env) (SUPPORTED_EXTENSIONS env) inp = Inr input_path\<close>
              nc None True ip assms(1)
            have "x = snd (report_file env a result ?x1)"
              by (auto simp: main_try_def Let_def)
            then show ?thesis by (simp add: report_file_calls io0_def)
          qed
        next
          case False
          with Inr nc None ip assms(1) show ?thesis
            by (auto simp: main_try_def io0_def Let_def split: prod.splits sum.splits if_splits)
        qed
      qed
    qed
  qed
  with assms(2) show ?thesis by auto
qed

text \<open>The same holds for an input path that is the empty string.\<close>

lemma main_empty_input:
  assumes "parse_args env argv = Some (Parsed a)"
    and "main_setup_logging env a s = (Inr rl, s')"
    and "input a = Some []"
  shows "main env argv s = Some (Inr 1, print (help_text env) io0, s')"
  using main_parsed_without_input [OF assms(2)] main_parsed_eq [OF assms(1)] assms(3) by simp

text \<open>
  Claim C5. Whenever a run of \<open>main\<close> calls \<open>scan_and_transcribe\<close>, the argument
  \<open>skip_existing\<close> of the call is true if \<open>--no-skip\<close> was not given and false if it was;
  \<open>--skip-existing\<close> has no part in it. In particular the orchestrator runs with
  \<open>skip_existing\<close> true when neither flag is given. (\<open>main_try_batch\<close> below shows the
  call is made whenever the input is a directory and the constructors return.)
\<close>

theorem skip_existing_policy:
  assumes "main env argv s = Some (result, x, s')"
    and "ScanAndTranscribe config p rec skip dir cb \<in> set (calls x)"
  shows "skip = (''--no-skip'' \<notin> set argv)"
proof (cases "parse_args env argv")
  case None
  with assms(1) show ?thesis by (simp add: main_def)
next
  case (Some pr)
  show ?thesis
  proof (cases pr)
    case (ParserExit n out)
    with Some assms show ?thesis by (auto simp: main_def io0_def)
  next
    case (Parsed a)
    with Some assms(1) have m: "main_parsed env a s = (result, x, s')" by (simp add: main_def)
    from Some Parsed have flag: "no_skip a = (''--no-skip'' \<in> set argv)"
      by (simp add: parse_args_no_skip)
    obtain r s1 where st: "main_setup_logging env a s = (r, s1)"
      by (cases "main_setup_logging env a s")
    show ?thesis
    proof (cases r)
      case (Inl e)
      with st m assms(2) show ?thesis by (auto simp: main_parsed_def io0_def)
    next
      case (Inr rl)
      show ?thesis
      proof (cases "input a = None \<or> input a = Some []")
        case True
        with st Inr m assms(2) show ?thesis
          by (auto simp: main_parsed_def io0_def print_def)
      next
        case False
        then obtain inp where inp: "input a = Some inp" "inp \<noteq> []" by auto
        obtain eo x1 where t: "main_try env a inp io0 = (eo, x1)"
          by (cases "main_try env a inp io0")
        from st Inr m inp t have "calls x = calls x1"
          by (cases eo) (auto simp: main_parsed_def handlers_calls)
        with assms(2) main_try_calls [OF t] flag show ?thesis by simp
      qed
    qed
  qed
qed

lemma main_try_batch:
  assumes "exists (file_system env) inp" and "\<not> is_file (file_system env) inp"
    and "new_config env (build_config a) = None"
    and "new_transcriber env (disable_normalization a (build_config a)) = None"
    and "scan_and_transcribe env (disable_normalization a (build_config a)) inp (recursive a)
           (\<not> no_skip a) (output_dir a) (\<not> quiet a) = (progress, outcome)"
  shows "main_try env a inp io0 =
           ((case outcome of Inl e \<Rightarrow> Some e | Inr results \<Rightarrow> None),
            \<lparr> stdout = (if quiet a then [] else map (\<lambda>(c, t, f). print_progress c t f) progress) @
                       (case outcome of Inl e \<Rightarrow> [] | Inr results \<Rightarrow> summary env results),
              logged = [],
              calls = [ScanAndTranscribe (disable_normalization a (build_config a)) inp (recursive a)
                         (\<not> no_skip a) (output_dir a) (\<not> quiet a)] \<rparr>)"
  using assms
  by (simp add: main_try_def validate_input_def Let_def io0_def split: sum.splits)




lemma parse_one: "positional_string p \<Longrightarrow> option_action p = None \<Longrightarrow>
    parse_args env [p] = Some (Parsed (default_args\<lparr>input := Some p\<rparr>))"
  by (simp add: parse_args_def in_fragment_def default_args_def)

lemma parse_recordings:
  "parse_args env [''recordings''] = Some (Parsed (default_args\<lparr>input := Some ''recordings''\<rparr>))"
  by (rule parse_one) (simp_all add: positional_string_def option_action_def)

lemma parse_a_mp3:
  "parse_args env [''recordings/a.mp3''] =
     Some (Parsed (default_args\<lparr>input := Some ''recordings/a.mp3''\<rparr>))"
  by (rule parse_one) (simp_all add: positional_string_def option_action_def)

lemma parse_notes:
  "parse_args env [''notes.txt''] = Some (Parsed (default_args\<lparr>input := Some ''notes.txt''\<rparr>))"
  by (rule parse_one) (simp_all add: positional_string_def option_action_def)

lemma parse_no_skip:
  "parse_args env [''recordings'', ''--skip-existing'', ''--no-skip''] =
     Some (Parsed (default_args\<lparr>input := Some ''recordings'', no_skip := True\<rparr>))"
  by (simp add: parse_args_def in_fragment_def positional_string_def option_action_def
        default_args_def)

lemma try_a_mp3:
  "fst (main_try scenario (default_args\<lparr>input := Some ''recordings/a.mp3''\<rparr>)
          ''recordings/a.mp3'' io0) = None"
  by (simp add: main_try_def validate_input_def exists_def is_file_def scenario_def
        suffix_a_mp3 lower_def Let_def report_file_def default_args_def scenario_transcribe_def
        get_or_def print_def split: sum.splits)

lemma try_notes:
  "fst (main_try scenario (default_args\<lparr>input := Some ''notes.txt''\<rparr>) ''notes.txt'' io0) =
     Some (ValueError (''Unsupported file format: .txt'' @ [CHR 0x0A] @
                       ''Supported formats: '' @ join '', '' (sort (SUPPORTED_EXTENSIONS scenario))))"
  by (simp add: main_try_def validate_input_def exists_def is_file_def scenario_def
        suffix_notes lower_def)

lemma try_interrupted:
  "fst (main_try interrupted (default_args\<lparr>input := Some ''recordings/a.mp3''\<rparr>)
          ''recordings/a.mp3'' io0) = Some KeyboardInterrupt"
  by (simp add: main_try_def validate_input_def exists_def is_file_def scenario_def
        interrupted_def suffix_a_mp3 lower_def Let_def)

lemma interrupted_setup:
  "main_setup_logging interrupted a s = main_setup_logging scenario a s"
  by (simp add: main_setup_logging_def interrupted_def)

theorem main_exit_codes_witness:
  "(\<exists>x s'. main scenario [''recordings/a.mp3''] fresh_logging = Some (Inr 0, x, s')) \<and>
   (\<exists>x s'. main scenario [''notes.txt''] fresh_logging = Some (Inr 1, x, s')) \<and>
   (\<exists>x s'. main interrupted [''recordings/a.mp3''] fresh_logging = Some (Inr 130, x, s'))"
proof (intro conjI)
  let ?a = "default_args\<lparr>input := Some ''recordings/a.mp3''\<rparr>"
  let ?n = "default_args\<lparr>input := Some ''notes.txt''\<rparr>"
  from scenario_setup obtain s1 where
    s1: "main_setup_logging scenario ?a fresh_logging = (Inr PACKAGE, s1)" by blast
  from scenario_setup obtain s2 where
    s2: "main_setup_logging scenario ?n fresh_logging = (Inr PACKAGE, s2)" by blast
  from s1 have s3: "main_setup_logging interrupted ?a fresh_logging = (Inr PACKAGE, s1)"
    by (simp add: interrupted_setup)
  from main_exit_codes [OF parse_a_mp3 s1] try_a_mp3
  show "\<exists>x s'. main scenario [''recordings/a.mp3''] fresh_logging = Some (Inr 0, x, s')"
    by auto
  from main_exit_codes [OF parse_notes s2] try_notes
  show "\<exists>x s'. main scenario [''notes.txt''] fresh_logging = Some (Inr 1, x, s')"
    by auto
  from main_exit_codes [OF parse_a_mp3 s3] try_interrupted
  show "\<exists>x s'. main interrupted [''recordings/a.mp3''] fresh_logging = Some (Inr 130, x, s')"
    by auto
qed

lemma scenario_dir:
  "exists (file_system scenario) ''recordings'' \<and> \<not> is_file (file_system scenario) ''recordings''"
  by (simp add: exists_def is_file_def scenario_def)

lemma scenario_ctor: "new_config scenario c = None \<and> new_transcriber scenario c = None"
  by (simp add: scenario_def)

lemma scenario_scan:
  "scan_and_transcribe scenario c p r k d cb =
     ([(1, 2, ''a.mp3''), (2, 2, ''b.wav'')], Inr scenario_results)"
  by (simp add: scenario_def)



theorem skip_existing_policy_witness:
  "(\<exists>result x s' config. main scenario [''recordings''] fresh_logging = Some (result, x, s') \<and>
      calls x = [ScanAndTranscribe config ''recordings'' False True None True]) \<and>
   (\<exists>result x s' config.
      main scenario [''recordings'', ''--skip-existing'', ''--no-skip''] fresh_logging =
        Some (result, x, s') \<and>
      calls x = [ScanAndTranscribe config ''recordings'' False False None True])"
proof (intro conjI)
  let ?argv = "[''recordings'']"
  let ?a = "default_args\<lparr>input := Some ''recordings''\<rparr>"
  let ?c = "disable_normalization ?a (build_config ?a)"
  from scenario_setup obtain s1 where
    s1: "main_setup_logging scenario ?a fresh_logging = (Inr PACKAGE, s1)" by blast
  have i: "input ?a = Some ''recordings''" "''recordings'' \<noteq> []" by simp_all
  note t = main_try_batch [OF scenario_dir [THEN conjunct1] scenario_dir [THEN conjunct2]
      scenario_ctor [THEN conjunct1] scenario_ctor [THEN conjunct2] scenario_scan, of ?a]
  define skip where "skip = (\<not> no_skip ?a)"
  from main_parsed_eq [OF parse_recordings] main_parsed_with_input [OF s1 i] t
  obtain x where m: "main scenario ?argv fresh_logging = Some (Inr 0, x, s1)"
    and c: "calls x = [ScanAndTranscribe ?c ''recordings'' (recursive ?a) skip (output_dir ?a)
                         (\<not> quiet ?a)]"
    by (simp add: skip_def)
  from c have "ScanAndTranscribe ?c ''recordings'' (recursive ?a) skip (output_dir ?a) (\<not> quiet ?a)
      \<in> set (calls x)" by simp
  from skip_existing_policy [OF m this] have "skip = True" by simp
  with m c show "\<exists>result x s' config. main scenario ?argv fresh_logging = Some (result, x, s') \<and>
      calls x = [ScanAndTranscribe config ''recordings'' False True None True]"
    by (simp add: default_args_def)
next
  let ?argv = "[''recordings'', ''--skip-existing'', ''--no-skip'']"
  let ?a = "default_args\<lparr>input := Some ''recordings'', no_skip := True\<rparr>"
  let ?c = "disable_normalization ?a (build_config ?a)"
  from scenario_setup obtain s1 where
    s1: "main_setup_logging scenario ?a fresh_logging = (Inr PACKAGE, s1)" by blast
  have i: "input ?a = Some ''recordings''" "''recordings'' \<noteq> []" by simp_all
  note t = main_try_batch [OF scenario_dir [THEN conjunct1] scenario_dir [THEN conjunct2]
      scenario_ctor [THEN conjunct1] scenario_ctor [THEN conjunct2] scenario_scan, of ?a]
  define skip where "skip = (\<not> no_skip ?a)"
  from main_parsed_eq [OF parse_no_skip] main_parsed_with_input [OF s1 i] t
  obtain x where m: "main scenario ?argv fresh_logging = Some (Inr 0, x, s1)"
    and c: "calls x = [ScanAndTranscribe ?c ''recordings'' (recursive ?a) skip (output_dir ?a)
                         (\<not> quiet ?a)]"
    by (simp add: skip_def)
  from c have "ScanAndTranscribe ?c ''recordings'' (recursive ?a) skip (output_dir ?a) (\<not> quiet ?a)
      \<in> set (calls x)" by simp
  from skip_existing_policy [OF m this] have "skip = False" by simp
  with m c show "\<exists>result x s' config. main scenario ?argv fresh_logging = Some (result, x, s') \<and>
      calls x = [ScanAndTranscribe config ''recordings'' False False None True]"
    by (simp add: default_args_def)
qed

text \<open>
  What \<open>cli.py\<close> itself does for the language: the value given with \<open>-l\<close> reaches the
  configuration, and without the option the parser's default \<open>fa\<close> does.
\<close>

lemma option_action_language:
  "(option_action t = Some (Store Language)) = (t = ''-l'' \<or> t = ''--language'')"
  by (simp add: option_action_def)

lemma language_store_true: "language (store_true f a) = language a"
  by (cases f) simp_all

lemma language_store: "language (store d v a) = (if d = Language then v else language a)"
  by (cases d) simp_all

lemma parse_loop_language_default:
  "parse_loop env ts a0 ex = Parsed a \<Longrightarrow> ''-l'' \<notin> set ts \<Longrightarrow> ''--language'' \<notin> set ts \<Longrightarrow>
     language a = language a0"
proof (induction env ts a0 ex rule: parse_loop.induct)
  case (1 env a extras)
  then show ?case by (simp split: if_splits)
next
  case (2 env t ts a0 extras)
  from "2.prems" have t: "t \<noteq> ''-l''" "t \<noteq> ''--language''"
    and ts: "''-l'' \<notin> set ts" "''--language'' \<notin> set ts" by auto
  show ?case
  proof (cases "option_action t")
    case None
    show ?thesis
    proof (cases "input a0")
      case inp: None
      with None "2.prems" have "parse_loop env ts (a0\<lparr>input := Some t\<rparr>) extras = Parsed a" by simp
      from "2.IH"(1) [OF None inp this ts] show ?thesis by simp
    next
      case inp: (Some i)
      with None "2.prems" have "parse_loop env ts a0 True = Parsed a" by simp
      from "2.IH"(2) [OF None inp this ts] show ?thesis by simp
    qed
  next
    case (Some act)
    show ?thesis
    proof (cases act)
      case (Store d)
      with Some "2.prems" obtain v ts' where l: "ts = v # ts'" and v: "option_action v = None"
        and valid: "valid_choice env d v"
        and rest: "parse_loop env ts' (store d v a0) extras = Parsed a"
        by (auto split: list.splits if_splits)
      have "language a = language (store d v a0)"
        using "2.IH"(3) [OF Some Store l] v valid rest ts l by simp
      moreover from Some Store t have "d \<noteq> Language"
        using option_action_language [of t] by auto
      ultimately show ?thesis by (simp add: language_store)
    next
      case (StoreTrue f)
      with Some "2.prems" have "parse_loop env ts (store_true f a0) extras = Parsed a" by simp
      from "2.IH"(4) [OF Some StoreTrue this ts] show ?thesis
        by (simp add: language_store_true)
    next
      case VersionAction
      with Some "2.prems" show ?thesis by simp
    next
      case HelpAction
      with Some "2.prems" show ?thesis by simp
    qed
  qed
qed

lemma cli_language_default:
  assumes "parse_args env argv = Some (Parsed a)"
    and "''-l'' \<notin> set argv" and "''--language'' \<notin> set argv"
  shows "config_language (build_config a) = ''fa''"
proof -
  from assms(1) have "parse_loop env argv default_args False = Parsed a"
    by (simp add: parse_args_def split: if_splits)
  from parse_loop_language_default [OF this assms(2,3)] show ?thesis
    by (simp add: build_config_def default_args_def)
qed

lemma cli_language_override:
  "\<exists>a. parse_args env [''recordings'', ''-l'', ''ar''] = Some (Parsed a) \<and>
        config_language (build_config a) = ''ar''"
  by (simp add: parse_args_def in_fragment_def positional_string_def option_action_def
        valid_choice_def default_args_def build_config_def)

end
